theory Spec2Isabelle
  imports Complex_Main "HOL-Library.Word"
begin

section \<open>NeuroGate: risk engine, audit log, physics classifier and login gate\<close>

text \<open>
  The development embeds the decision logic of the repository:
  \<^item> \<^verbatim>\<open>go-backend/main.go\<close>: the risk engine (\<^verbatim>\<open>CalculateRisk\<close>), the
    verify and challenge handlers and the bounded event log;
  \<^item> \<^verbatim>\<open>src/components/GravityChallenge.tsx\<close>: the physics classifier
    (\<^verbatim>\<open>analyzePhysics\<close>, \<^verbatim>\<open>measureLinearity\<close>);
  \<^item> \<^verbatim>\<open>src/components/DynamicLoginGate.tsx\<close>: the login gate's challenge step.

  Modelling conventions. Go's \<^verbatim>\<open>float64\<close> and JavaScript's \<^verbatim>\<open>number\<close> are
  idealised as \<^typ>\<open>real\<close>: rounding, overflow to infinity and NaN are not modelled
  (the one infinity the source produces on purpose, the velocity over a zero time gap, is
  the value \<open>None\<close>). A quantity that the program computes with rounding (a variance, a
  standard deviation, a velocity, a linearity) can therefore fall on the other side of a
  threshold than its idealised value when the two are within rounding of the threshold.
  For that reason the general statements below never equate such a quantity with an
  exactly computed one: they say what the score or the confidence is in terms of the
  values that the program's own functions return. Go's \<^verbatim>\<open>int64\<close> is \<^typ>\<open>64 word\<close>,
  read signed. Slice and array lengths are \<^typ>\<open>nat\<close>. Log output (\<^verbatim>\<open>log.Printf\<close>,
  \<^verbatim>\<open>console.*\<close>) is dropped. The mutable global event log is passed and returned
  explicitly.
\<close>

type_synonym float64 = real
type_synonym int64 = "64 word"

subsection \<open>Data structures of \<^verbatim>\<open>main.go\<close>\<close>

record MousePoint =
  X :: float64
  Y :: float64
  Time :: int64

record KeystrokeDynamics =
  FlightTimes :: "float64 list"
  DwellTimes :: "float64 list"
  Keys :: "string list"

record SecurityEvent =
  ID :: string
  Timestamp :: int64
  UserID :: string
  IP :: string
  TrustScore :: float64
  Status :: string
  TimeStr :: string

text \<open>
  \<^verbatim>\<open>EventLog\<close>: the mutex only serialises the two operations, so each is one atomic
  function of the state. \<^verbatim>\<open>maxSize\<close> is a Go \<^verbatim>\<open>int\<close>; \<^verbatim>\<open>NewEventLog\<close> passes it
  to \<^verbatim>\<open>make\<close> as a capacity, which panics on a negative value, so every constructed
  log has a natural number there.
\<close>

record EventLog =
  events :: "SecurityEvent list"
  maxSize :: nat

definition NewEventLog :: "nat \<Rightarrow> EventLog" where
  "NewEventLog n = \<lparr>events = [], maxSize = n\<rparr>"

text \<open>
  \<^verbatim>\<open>el.events = append(el.events, event)\<close>, then
  \<^verbatim>\<open>if len(el.events) > el.maxSize { el.events = el.events[len(el.events)-el.maxSize:] }\<close>.
\<close>

definition LogEvent :: "SecurityEvent \<Rightarrow> EventLog \<Rightarrow> EventLog" where
  "LogEvent event el =
     (let evs = events el @ [event]
      in if length evs > maxSize el
         then el\<lparr>events := drop (length evs - maxSize el) evs\<rparr>
         else el\<lparr>events := evs\<rparr>)"

text \<open>
  \<^verbatim>\<open>GetEvents\<close> fills a fresh slice with \<^verbatim>\<open>result[len-1-i] = e\<close> for each index
  \<open>i\<close>: the loop below writes the same cells in the same order.
\<close>

fun GetEvents_loop :: "SecurityEvent list \<Rightarrow> nat \<Rightarrow> SecurityEvent list \<Rightarrow> SecurityEvent list" where
  "GetEvents_loop [] i result = result"
| "GetEvents_loop (e # es) i result =
     GetEvents_loop es (Suc i) (result[length result - 1 - i := e])"

definition GetEvents :: "EventLog \<Rightarrow> SecurityEvent list" where
  "GetEvents el =
     GetEvents_loop (events el) 0
       (replicate (length (events el))
          \<lparr>ID = [], Timestamp = 0, UserID = [], IP = [], TrustScore = 0, Status = [], TimeStr = []\<rparr>)"

text \<open>A run of \<^verbatim>\<open>LogEvent\<close> calls, oldest first.\<close>

definition record_all :: "SecurityEvent list \<Rightarrow> EventLog \<Rightarrow> EventLog" where
  "record_all es el = foldl (\<lambda>l e. LogEvent e l) el es"


subsection \<open>The risk engine of \<^verbatim>\<open>main.go\<close>\<close>

text \<open>
  Several Go structs have a field \<^verbatim>\<open>Timestamp\<close> or \<^verbatim>\<open>UserID\<close>; the records below
  tell them apart by a suffix (\<open>_t\<close> telemetry, \<open>_v\<close> verify request, \<open>_c\<close> challenge
  request, \<open>_r\<close> risk response).
\<close>

record TelemetryData =
  KeystrokeDynamics :: KeystrokeDynamics
  MousePath :: "MousePoint list"
  EntropyScore :: float64
  SessionDuration :: int64
  Timestamp_t :: int64

record VerifyRequest =
  UserID_v :: string
  Telemetry :: TelemetryData
  Timestamp_v :: int64

record RiskResponse =
  TrustScore_r :: float64
  RequiresChallenge :: bool

record ChallengeRequest =
  UserID_c :: string
  Success :: bool
  Timestamp_c :: int64

record ChallengeResponse =
  Status_c :: string
  Message :: string

text \<open>
  \<^verbatim>\<open>calculateVariance\<close>: two passes over the slice, each accumulating from \<open>0.0\<close>,
  each followed by a division by the length. The operations are those of the source in
  its order, on reals; the program rounds each of them to \<^verbatim>\<open>float64\<close>.
\<close>

definition calculateVariance :: "float64 list \<Rightarrow> float64" where
  "calculateVariance data =
     (if length data < 2 then 0
      else
        let mean = foldl (\<lambda>mean val. mean + val) 0 data / real (length data);
            variance = foldl (\<lambda>variance val. variance + (val - mean) * (val - mean)) 0 data
        in variance / real (length data))"

text \<open>
  The loop of \<^verbatim>\<open>calculateMouseAcceleration\<close> reads \<^verbatim>\<open>mousePath[i-2]\<close>,
  \<^verbatim>\<open>mousePath[i-1]\<close> and \<^verbatim>\<open>mousePath[i]\<close> for \<open>i = 2, 3, \<dots>\<close>: a window of three
  points sliding over the path. The time deltas are \<^verbatim>\<open>int64\<close> differences (wrapping)
  converted to \<^verbatim>\<open>float64\<close> and divided by 1000; a triple with a zero delta is skipped
  (\<^verbatim>\<open>continue\<close>).
\<close>

fun accelerations_loop :: "MousePoint list \<Rightarrow> float64 list \<Rightarrow> float64 list" where
  "accelerations_loop (point1 # point2 # point3 # rest) accelerations =
     (let timeDelta1 = real_of_int (sint (Time point2 - Time point1)) / 1000;
          timeDelta2 = real_of_int (sint (Time point3 - Time point2)) / 1000
      in if timeDelta1 = 0 \<or> timeDelta2 = 0
         then accelerations_loop (point2 # point3 # rest) accelerations
         else
           let vel1X = (X point2 - X point1) / timeDelta1;
               vel1Y = (Y point2 - Y point1) / timeDelta1;
               vel2X = (X point3 - X point2) / timeDelta2;
               vel2Y = (Y point3 - Y point2) / timeDelta2;
               accelX = vel2X - vel1X;
               accelY = vel2Y - vel1Y;
               accelMagnitude = sqrt (accelX * accelX + accelY * accelY)
           in accelerations_loop (point2 # point3 # rest) (accelerations @ [accelMagnitude]))"
| "accelerations_loop mousePath accelerations = accelerations"

definition calculateMouseAcceleration :: "MousePoint list \<Rightarrow> float64" where
  "calculateMouseAcceleration mousePath =
     (if length mousePath < 3 then 0
      else calculateVariance (accelerations_loop mousePath []))"

text \<open>
  \<^verbatim>\<open>CalculateRisk\<close>: the local \<^verbatim>\<open>trustScore\<close> is updated by seven blocks in turn and
  clamped at the end. Each block is one function from the score before it to the score
  after it, in the order of the source.
\<close>

definition entropy_block :: "TelemetryData \<Rightarrow> float64 \<Rightarrow> float64" where
  "entropy_block telemetry trustScore =
     (if EntropyScore telemetry < 40 then trustScore - 35
      else if EntropyScore telemetry > 70 then trustScore + 25
      else trustScore + 5)"

definition flight_block :: "TelemetryData \<Rightarrow> float64 \<Rightarrow> float64" where
  "flight_block telemetry trustScore =
     (if length (FlightTimes (KeystrokeDynamics telemetry)) > 2
      then
        let flightVariance = calculateVariance (FlightTimes (KeystrokeDynamics telemetry))
        in if flightVariance < 100 then trustScore - 30
           else if flightVariance > 1000 then trustScore + 15
           else trustScore
      else trustScore)"

definition dwell_block :: "TelemetryData \<Rightarrow> float64 \<Rightarrow> float64" where
  "dwell_block telemetry trustScore =
     (if length (DwellTimes (KeystrokeDynamics telemetry)) > 2
      then
        let dwellVariance = calculateVariance (DwellTimes (KeystrokeDynamics telemetry))
        in if dwellVariance < 50 then trustScore - 15 else trustScore
      else trustScore)"

definition session_block :: "TelemetryData \<Rightarrow> float64 \<Rightarrow> float64" where
  "session_block telemetry trustScore =
     (if sint (SessionDuration telemetry) < 2000 then trustScore - 20
      else if sint (SessionDuration telemetry) > 300000 then trustScore - 10
      else trustScore)"

definition mouse_block :: "TelemetryData \<Rightarrow> float64 \<Rightarrow> float64" where
  "mouse_block telemetry trustScore =
     (if length (MousePath telemetry) > 10
      then
        let acceleration = calculateMouseAcceleration (MousePath telemetry)
        in if acceleration < 1.0 then trustScore - 25
           else if acceleration > 50 then trustScore + 10
           else trustScore
      else trustScore)"

definition keystroke_count_block :: "TelemetryData \<Rightarrow> float64 \<Rightarrow> float64" where
  "keystroke_count_block telemetry trustScore =
     (let keystrokeCount = length (Keys (KeystrokeDynamics telemetry))
      in if keystrokeCount < 3 then trustScore - 15
         else if keystrokeCount > 50 then trustScore
         else trustScore)"

definition mouse_count_block :: "TelemetryData \<Rightarrow> float64 \<Rightarrow> float64" where
  "mouse_count_block telemetry trustScore =
     (let mousePointCount = length (MousePath telemetry)
      in if mousePointCount < 5 then trustScore - 10
         else if mousePointCount > 100 then trustScore + 5
         else trustScore)"

definition clamp_block :: "float64 \<Rightarrow> float64" where
  "clamp_block trustScore =
     (if trustScore > 100 then 100 else if trustScore < 0 then 0 else trustScore)"

definition CalculateRisk :: "TelemetryData \<Rightarrow> float64" where
  "CalculateRisk telemetry =
     clamp_block
       (mouse_count_block telemetry
         (keystroke_count_block telemetry
           (mouse_block telemetry
             (session_block telemetry
               (dwell_block telemetry
                 (flight_block telemetry
                   (entropy_block telemetry 50)))))))"

subsection \<open>The handlers of \<^verbatim>\<open>main.go\<close>\<close>

text \<open>
  A handler answers either 400 with an error text (when \<^verbatim>\<open>ShouldBindJSON\<close> fails) or
  200 with a JSON body. Decoding and validating the body is gin's work: the handler
  model receives its outcome, \<open>None\<close> for a failure and \<open>Some req\<close> for the bound
  request. What the handler reads from its surroundings (three readings of the clock,
  already rendered, and the client address) is the record \<open>request_context\<close>.
\<close>

datatype 'a http_response = BadRequest string | StatusOK 'a

record request_context =
  nowUnixNano :: string
  nowUnix :: int64
  nowFormatted :: string
  clientIP :: string

definition CHALLENGE_THRESHOLD :: float64 where
  "CHALLENGE_THRESHOLD = 70.0"

definition VerifyBehaviorHandler ::
    "request_context \<Rightarrow> VerifyRequest option \<Rightarrow> EventLog \<Rightarrow> RiskResponse http_response \<times> EventLog" where
  "VerifyBehaviorHandler c body eventLog =
     (case body of
        None \<Rightarrow> (BadRequest ''Invalid request format'', eventLog)
      | Some req \<Rightarrow>
          let trustScore = CalculateRisk (Telemetry req);
              requiresChallenge = (trustScore < CHALLENGE_THRESHOLD);
              status = (if requiresChallenge then ''challenged'' else ''success'');
              eventLog' = LogEvent
                \<lparr>ID = UserID_v req @ ''-'' @ nowUnixNano c,
                 Timestamp = nowUnix c,
                 UserID = UserID_v req,
                 IP = clientIP c,
                 TrustScore = trustScore,
                 Status = status,
                 TimeStr = nowFormatted c\<rparr> eventLog;
              response = \<lparr>TrustScore_r = trustScore, RequiresChallenge = requiresChallenge\<rparr>
          in (StatusOK response, eventLog'))"

text \<open>\<^verbatim>\<open>SubmitChallengeHandler\<close> never touches \<^verbatim>\<open>eventLog\<close>: it is returned as it came.\<close>

definition SubmitChallengeHandler ::
    "ChallengeRequest option \<Rightarrow> EventLog \<Rightarrow> ChallengeResponse http_response \<times> EventLog" where
  "SubmitChallengeHandler body eventLog =
     (case body of
        None \<Rightarrow> (BadRequest ''Invalid request format'', eventLog)
      | Some req \<Rightarrow>
          let response =
                (if Success req
                 then \<lparr>Status_c = ''accepted'', Message = ''Challenge verified successfully''\<rparr>
                 else \<lparr>Status_c = ''rejected'', Message = ''Challenge verification failed''\<rparr>)
          in (StatusOK response, eventLog))"


subsection \<open>The physics classifier of \<^verbatim>\<open>GravityChallenge.tsx\<close>\<close>

text \<open>
  The fields \<^verbatim>\<open>x\<close> and \<^verbatim>\<open>y\<close> of \<^verbatim>\<open>MovementPoint\<close> are \<open>px\<close> and \<open>py\<close> here. The
  entries of \<^verbatim>\<open>reasons\<close> are template strings; each is a constructor of \<open>reason\<close>
  carrying the interpolated number instead of its decimal rendering.
\<close>

record MovementPoint =
  timestamp :: real
  px :: real
  py :: real

datatype reason =
    InsufficientSamples nat nat
  | InstantMovement
  | FastInitialMovement real
  | NaturalOnset real
  | HighVelocity "real option"
  | NaturalVelocityRange "real option"
  | TooLinear real
  | SomewhatLinear real
  | NaturalVariations real
  | NaturalAccelerationNoise real
  | SomeAccelerationVariation real
  | SmoothAcceleration real
  | DirectionAdjustments nat
  | HumanDetected real
  | BotSuspected real

record PhysicsAnalysis =
  isHuman :: bool
  confidence :: real
  reasons :: "reason list"
  velocities :: "real list"
  accelerations :: "real list"

definition MIN_MOVEMENT_TIME :: real where "MIN_MOVEMENT_TIME = 50"
definition VELOCITY_THRESHOLD :: real where "VELOCITY_THRESHOLD = 500"
definition LINEARITY_THRESHOLD :: real where "LINEARITY_THRESHOLD = 0.95"
definition MIN_SAMPLES :: nat where "MIN_SAMPLES = 15"

definition distance :: "MovementPoint \<Rightarrow> MovementPoint \<Rightarrow> real" where
  "distance p1 p2 =
     (let dx = px p2 - px p1; dy = py p2 - py p1 in sqrt (dx * dx + dy * dy))"

text \<open>\<^verbatim>\<open>calculateVelocity\<close> returns \<^verbatim>\<open>Infinity\<close> over a zero time gap: the value \<open>None\<close>.\<close>

definition calculateVelocity :: "MovementPoint \<Rightarrow> MovementPoint \<Rightarrow> real option" where
  "calculateVelocity p1 p2 =
     (let timeDiff = timestamp p2 - timestamp p1
      in if timeDiff = 0 then None else Some (distance p1 p2 / timeDiff))"

fun calculateAccelerations :: "real list \<Rightarrow> real list" where
  "calculateAccelerations (v0 # v1 # rest) = \<bar>v1 - v0\<bar> # calculateAccelerations (v1 # rest)"
| "calculateAccelerations vs = []"

text \<open>
  \<^verbatim>\<open>measureLinearity\<close>: \<^verbatim>\<open>relPoints\<close> pairs each point's index (its field \<^verbatim>\<open>t\<close>) with
  its \<^verbatim>\<open>x\<close>; the two \<^verbatim>\<open>reduce\<close> calls and the \<^verbatim>\<open>for\<close> loop are left folds.
\<close>

definition measureLinearity :: "MovementPoint list \<Rightarrow> real" where
  "measureLinearity points =
     (if length points < 3 then 0
      else
        let relPoints = map (\<lambda>(i, p). (real i, px p)) (enumerate 0 points);
            n = real (length relPoints);
            meanT = foldl (\<lambda>sum (t, x). sum + t) 0 relPoints / n;
            meanX = foldl (\<lambda>sum (t, x). sum + x) 0 relPoints / n;
            lastX = snd (last relPoints);
            firstX = snd (hd relPoints);
            (ssRes, ssTot) =
              foldl (\<lambda>(ssRes, ssTot) (t, x).
                       let predicted = meanX + ((t - meanT) / (n - 1)) * (lastX - firstX);
                           actual = x;
                           residual = actual - predicted
                       in (ssRes + residual * residual,
                           ssTot + (actual - meanX) * (actual - meanX)))
                    (0, 0) relPoints
        in if ssTot = 0 then 1
           else let rSquared = 1 - ssRes / ssTot in max 0 (min 1 rSquared))"

text \<open>
  The state of \<^verbatim>\<open>analyzePhysics\<close> between its checks is the pair of \<^verbatim>\<open>confidence\<close> and
  \<^verbatim>\<open>reasons\<close>; each check is a function on that pair.
\<close>

type_synonym verdict_state = "real \<times> reason list"

definition check_instant_movement :: "MovementPoint list \<Rightarrow> verdict_state \<Rightarrow> verdict_state" where
  "check_instant_movement points = (\<lambda>(conf, rs).
     let firstTwo = take 2 points
     in if length firstTwo = 2
        then
          let timeDiff = timestamp (firstTwo ! 1) - timestamp (firstTwo ! 0)
          in if timeDiff = 0 then (conf - 0.3, rs @ [InstantMovement])
             else if timeDiff < MIN_MOVEMENT_TIME then (conf - 0.2, rs @ [FastInitialMovement timeDiff])
             else (conf + 0.1, rs @ [NaturalOnset timeDiff])
        else (conf, rs))"

text \<open>The loop that fills \<^verbatim>\<open>velocities\<close>, keeping the finite values only.\<close>

fun velocities_loop :: "MovementPoint list \<Rightarrow> real list" where
  "velocities_loop (p # q # rest) =
     (case calculateVelocity p q of
        None \<Rightarrow> velocities_loop (q # rest)
      | Some vel \<Rightarrow> vel # velocities_loop (q # rest))"
| "velocities_loop points = []"

text \<open>
  \<^verbatim>\<open>Math.max(...velocities)\<close> is \<^verbatim>\<open>-Infinity\<close> for no argument (\<open>None\<close> here), and
  \<^verbatim>\<open>-Infinity > 500\<close> is false. The average is a division by the number of velocities:
  \<^verbatim>\<open>NaN\<close> (\<open>None\<close>) when there is none.
\<close>

definition Math_max :: "real list \<Rightarrow> real option" where
  "Math_max vs = (case vs of [] \<Rightarrow> None | v # rest \<Rightarrow> Some (foldl max v rest))"

definition average :: "real list \<Rightarrow> real option" where
  "average vs = (if vs = [] then None else Some (foldl (\<lambda>a b. a + b) 0 vs / real (length vs)))"

definition check_velocity :: "real list \<Rightarrow> verdict_state \<Rightarrow> verdict_state" where
  "check_velocity vels = (\<lambda>(conf, rs).
     let maxVelocity = Math_max vels;
         avgVelocity = average vels
     in if (case maxVelocity of None \<Rightarrow> False | Some m \<Rightarrow> m > VELOCITY_THRESHOLD)
        then (conf - 0.25, rs @ [HighVelocity maxVelocity])
        else (conf + 0.1, rs @ [NaturalVelocityRange avgVelocity]))"

definition check_linearity :: "MovementPoint list \<Rightarrow> verdict_state \<Rightarrow> verdict_state" where
  "check_linearity points = (\<lambda>(conf, rs).
     let linearity = measureLinearity points
     in if linearity > LINEARITY_THRESHOLD then (conf - 0.3, rs @ [TooLinear (linearity * 100)])
        else if linearity > 0.7 then (conf - 0.1, rs @ [SomewhatLinear (linearity * 100)])
        else (conf + 0.2, rs @ [NaturalVariations (linearity * 100)]))"

text \<open>
  The standard deviation of check 4, with the operations of the source in its order, on
  reals; the program rounds each of them.
\<close>

definition accelStdDev :: "real list \<Rightarrow> real" where
  "accelStdDev accs =
     (let avgAccel = foldl (\<lambda>a b. a + b) 0 accs / real (length accs);
          accelVariance = foldl (\<lambda>sum a. sum + (a - avgAccel)\<^sup>2) 0 accs / real (length accs)
      in sqrt accelVariance)"

definition check_acceleration :: "real list \<Rightarrow> verdict_state \<Rightarrow> verdict_state" where
  "check_acceleration accs = (\<lambda>(conf, rs).
     if length accs > 0
     then
       let sd = accelStdDev accs
       in if sd > 0.05 then (conf + 0.2, rs @ [NaturalAccelerationNoise sd])
          else if sd > 0.01 then (conf + 0.1, rs @ [SomeAccelerationVariation sd])
          else (conf - 0.15, rs @ [SmoothAcceleration sd])
     else (conf, rs))"

text \<open>
  The loop of check 5 reads \<^verbatim>\<open>points3D[i-1]\<close>, \<^verbatim>\<open>points3D[i]\<close>, \<^verbatim>\<open>points3D[i+1]\<close> for
  every interior index: again a window of three.
\<close>

fun directionChanges_loop :: "MovementPoint list \<Rightarrow> nat \<Rightarrow> nat" where
  "directionChanges_loop (p1 # p2 # p3 # rest) directionChanges =
     (let v1x = px p2 - px p1; v1y = py p2 - py p1;
          v2x = px p3 - px p2; v2y = py p3 - py p2;
          len1 = sqrt (v1x * v1x + v1y * v1y);
          len2 = sqrt (v2x * v2x + v2y * v2y)
      in if len1 > 0 \<and> len2 > 0
         then
           let dot = (v1x * v2x + v1y * v2y) / (len1 * len2)
           in directionChanges_loop (p2 # p3 # rest)
                (if dot < 0.95 then directionChanges + 1 else directionChanges)
         else directionChanges_loop (p2 # p3 # rest) directionChanges)"
| "directionChanges_loop points directionChanges = directionChanges"

definition check_direction :: "MovementPoint list \<Rightarrow> verdict_state \<Rightarrow> verdict_state" where
  "check_direction points = (\<lambda>(conf, rs).
     let directionChanges = directionChanges_loop points 0
     in if real directionChanges > real (length points) * 0.2
        then (conf + 0.15, rs @ [DirectionAdjustments directionChanges])
        else (conf, rs))"

definition analyzePhysics :: "MovementPoint list \<Rightarrow> PhysicsAnalysis" where
  "analyzePhysics points =
     (if length points < MIN_SAMPLES
      then \<lparr>isHuman = False, confidence = 0,
            reasons = [InsufficientSamples (length points) MIN_SAMPLES],
            velocities = [], accelerations = []\<rparr>
      else
        let st1 = check_instant_movement points (0.5, []);
            vels = velocities_loop points;
            st2 = check_velocity vels st1;
            st3 = check_linearity points st2;
            accs = calculateAccelerations vels;
            st4 = check_acceleration accs st3;
            (conf, rs) = check_direction points st4;
            human = (conf > 0.4);
            rs' = rs @ [if human then HumanDetected (conf * 100) else BotSuspected (conf * 100)];
            finalConfidence = max 0 (min 1 conf)
        in \<lparr>isHuman = human, confidence = finalConfidence, reasons = rs',
             velocities = vels, accelerations = accs\<rparr>)"

subsection \<open>The login gate of \<^verbatim>\<open>DynamicLoginGate.tsx\<close>\<close>

datatype LoginStep = LOGIN | CHALLENGE | SUCCESS | ERROR

text \<open>
  A call of the API client either resolves with the response body or rejects with an
  error message. The gate's handlers take the client method as a parameter; \<open>'s\<close> is the
  state of whatever answers the call.
\<close>

datatype 'a api_result = Rejected string | Resolved 'a

record gate =
  username :: string
  password :: string
  otp :: string
  step :: LoginStep
  loading :: bool
  error :: "string option"
  riskResponse :: "RiskResponse option"
  telemetryRef :: "TelemetryData option"
  userIdRef :: string

text \<open>
  \<^verbatim>\<open>String.prototype.trim\<close> on the code units below 256, which is what a \<^typ>\<open>char\<close>
  holds: tab, line feed, vertical tab, form feed, carriage return, space and no-break
  space are white space.
\<close>

definition is_js_whitespace :: "char \<Rightarrow> bool" where
  "is_js_whitespace c =
     (let n = (of_char c :: nat) in (9 \<le> n \<and> n \<le> 13) \<or> n = 32 \<or> n = 160)"

definition js_trim :: "string \<Rightarrow> string" where
  "js_trim s = rev (dropWhile is_js_whitespace (rev (dropWhile is_js_whitespace s)))"

definition handleLoginSubmit ::
    "(string \<Rightarrow> TelemetryData \<Rightarrow> 's \<Rightarrow> RiskResponse api_result \<times> 's)
     \<Rightarrow> TelemetryData \<Rightarrow> gate \<Rightarrow> 's \<Rightarrow> gate \<times> 's" where
  "handleLoginSubmit verifyBehavior telemetry g0 srv =
     (let g = g0\<lparr>error := None, loading := True\<rparr>
      in if js_trim (username g) = [] \<or> js_trim (password g) = []
         then (g\<lparr>error := Some ''Username and password are required'', loading := False\<rparr>, srv)
         else
           let g = g\<lparr>telemetryRef := Some telemetry, userIdRef := username g\<rparr>
           in case verifyBehavior (username g) telemetry srv of
                (Resolved response, srv') \<Rightarrow>
                  (g\<lparr>riskResponse := Some response,
                     step := (if \<not> RequiresChallenge response then SUCCESS else CHALLENGE),
                     loading := False\<rparr>, srv')
              | (Rejected errorMessage, srv') \<Rightarrow>
                  (g\<lparr>error := Some errorMessage, step := ERROR, loading := False\<rparr>, srv'))"

definition handleChallengeSubmit ::
    "(string \<Rightarrow> bool \<Rightarrow> 's \<Rightarrow> ChallengeResponse api_result \<times> 's)
     \<Rightarrow> gate \<Rightarrow> 's \<Rightarrow> gate \<times> 's" where
  "handleChallengeSubmit submitChallenge g0 srv =
     (let g = g0\<lparr>error := None, loading := True\<rparr>
      in if js_trim (otp g) = []
         then (g\<lparr>error := Some ''OTP is required'', loading := False\<rparr>, srv)
         else if length (otp g) < 4
         then (g\<lparr>error := Some ''OTP must be at least 4 characters'', loading := False\<rparr>, srv)
         else
           case submitChallenge (userIdRef g) True srv of
             (Resolved challengeResponse, srv') \<Rightarrow>
               if Status_c challengeResponse = ''accepted''
               then (g\<lparr>step := SUCCESS, loading := False\<rparr>, srv')
               else (g\<lparr>error := Some (if Message challengeResponse = []
                                         then ''OTP verification failed''
                                         else Message challengeResponse),
                       step := ERROR, loading := False\<rparr>, srv')
           | (Rejected errorMessage, srv') \<Rightarrow>
               (g\<lparr>error := Some errorMessage, step := ERROR, loading := False\<rparr>, srv'))"


subsection \<open>The login gate wired to the handlers\<close>

text \<open>
  \<^verbatim>\<open>main.go\<close> registers two POST routes and serves them on port 3000; gin answers a POST
  to any other path with 404. The API client of \<^verbatim>\<open>neurogateAPI.ts\<close> posts to its
  \<^verbatim>\<open>baseURL\<close> followed by \<^verbatim>\<open>/verify\<close> or \<^verbatim>\<open>/challenge/submit\<close>.
\<close>

datatype post_handler = VerifyBehavior | SubmitChallenge

definition server_origin :: string where
  "server_origin = ''http://localhost:3000''"

definition post_routes :: "(string \<times> post_handler) list" where
  "post_routes = [(''/api/v1/verify'', VerifyBehavior), (''/api/v1/challenge'', SubmitChallenge)]"

definition route_of :: "string \<Rightarrow> post_handler option" where
  "route_of url = map_of (map (\<lambda>(path, h). (server_origin @ path, h)) post_routes) url"

definition client_baseURL :: string where
  "client_baseURL = ''http://localhost:3000/api/v1''"

definition verifyBehavior_url :: string where
  "verifyBehavior_url = client_baseURL @ ''/verify''"

definition submitChallenge_url :: string where
  "submitChallenge_url = client_baseURL @ ''/challenge/submit''"

text \<open>
  \<open>deliver_verify\<close> and \<open>deliver_challenge\<close> are the two client methods end to end.
  The request reaches the handler registered for its address, as the bound body; a 200
  answer resolves with its JSON body, and every other status rejects with the message
  axios gives it. An address that is registered for no handler (or for the other one) is
  answered without the handler being run: the 404 of the router. \<^verbatim>\<open>verifyBehavior\<close>
  copies four fields of the telemetry and sends its \<^verbatim>\<open>timestamp\<close> beside them, so the
  handler sees the zero value in \<^verbatim>\<open>Telemetry.Timestamp\<close>.
\<close>

definition deliver_verify ::
    "request_context \<Rightarrow> string \<Rightarrow> TelemetryData \<Rightarrow> EventLog \<Rightarrow> RiskResponse api_result \<times> EventLog" where
  "deliver_verify c userId data eventLog =
     (if route_of verifyBehavior_url = Some VerifyBehavior
      then
        (case VerifyBehaviorHandler c
                (Some \<lparr>UserID_v = userId, Telemetry = data\<lparr>Timestamp_t := 0\<rparr>,
                       Timestamp_v = Timestamp_t data\<rparr>) eventLog of
           (StatusOK response, eventLog') \<Rightarrow> (Resolved response, eventLog')
         | (BadRequest message, eventLog') \<Rightarrow>
             (Rejected ''Request failed with status code 400'', eventLog'))
      else (Rejected ''Request failed with status code 404'', eventLog))"

definition deliver_challenge ::
    "int64 \<Rightarrow> string \<Rightarrow> bool \<Rightarrow> EventLog \<Rightarrow> ChallengeResponse api_result \<times> EventLog" where
  "deliver_challenge now userId success eventLog =
     (if route_of submitChallenge_url = Some SubmitChallenge
      then
        (case SubmitChallengeHandler
                (Some \<lparr>UserID_c = userId, Success = success, Timestamp_c = now\<rparr>) eventLog of
           (StatusOK response, eventLog') \<Rightarrow> (Resolved response, eventLog')
         | (BadRequest message, eventLog') \<Rightarrow>
             (Rejected ''Request failed with status code 400'', eventLog'))
      else (Rejected ''Request failed with status code 404'', eventLog))"

text \<open>
  A client method that only writes down what it is asked to send and answers with a
  fixed result: it shows which arguments the gate passes.
\<close>

definition recording_client ::
    "ChallengeResponse api_result \<Rightarrow> string \<Rightarrow> bool \<Rightarrow> (string \<times> bool) list
     \<Rightarrow> ChallengeResponse api_result \<times> (string \<times> bool) list" where
  "recording_client answer userId success sent = (answer, sent @ [(userId, success)])"

text \<open>The event that \<^verbatim>\<open>VerifyBehaviorHandler\<close> builds for a user and a telemetry payload.\<close>

definition verify_event :: "request_context \<Rightarrow> string \<Rightarrow> TelemetryData \<Rightarrow> SecurityEvent" where
  "verify_event c userId data =
     \<lparr>ID = userId @ ''-'' @ nowUnixNano c, Timestamp = nowUnix c, UserID = userId,
      IP = clientIP c, TrustScore = CalculateRisk data,
      Status = (if CalculateRisk data < 70 then ''challenged'' else ''success''),
      TimeStr = nowFormatted c\<rparr>"

section \<open>The specification's tables\<close>

text \<open>
  The definitions of this section follow the wording of the specification, not the
  code: they are what the code is compared with. Each table takes the measured
  quantities (a variance, a count, a linearity) as arguments, so that it can be read
  with the values the program computes as well as with the values the specification
  describes.
\<close>

subsection \<open>Risk scorer\<close>

definition entropy_adjustment :: "real \<Rightarrow> real" where
  "entropy_adjustment entropy =
     (if entropy < 40 then - 35 else if 40 \<le> entropy \<and> entropy \<le> 70 then 5 else 25)"

definition flight_adjustment :: "nat \<Rightarrow> real \<Rightarrow> real" where
  "flight_adjustment samples variance =
     (if 3 \<le> samples
      then (if variance < 100 then - 30 else if variance > 1000 then 15 else 0)
      else 0)"

definition dwell_adjustment :: "nat \<Rightarrow> real \<Rightarrow> real" where
  "dwell_adjustment samples variance = (if 3 \<le> samples \<and> variance < 50 then - 15 else 0)"

definition session_adjustment :: "int \<Rightarrow> real" where
  "session_adjustment ms = (if ms < 2000 then - 20 else if ms > 300000 then - 10 else 0)"

definition pointer_adjustment :: "nat \<Rightarrow> real \<Rightarrow> real" where
  "pointer_adjustment samples variance =
     (if 10 < samples
      then (if variance < 1 then - 25 else if variance > 50 then 10 else 0)
      else 0)"

definition keystroke_count_adjustment :: "nat \<Rightarrow> real" where
  "keystroke_count_adjustment n = (if n < 3 then - 15 else 0)"

definition pointer_count_adjustment :: "nat \<Rightarrow> real" where
  "pointer_count_adjustment n = (if n < 5 then - 10 else if n > 100 then 5 else 0)"

definition risk_table ::
    "real \<Rightarrow> nat \<Rightarrow> real \<Rightarrow> nat \<Rightarrow> real \<Rightarrow> int \<Rightarrow> nat \<Rightarrow> real \<Rightarrow> nat \<Rightarrow> real" where
  "risk_table entropy flights flight_variance dwells dwell_variance session_ms
       pointers pointer_variance keystrokes =
     max 0 (min 100
       (50
        + entropy_adjustment entropy
        + flight_adjustment flights flight_variance
        + dwell_adjustment dwells dwell_variance
        + session_adjustment session_ms
        + pointer_adjustment pointers pointer_variance
        + keystroke_count_adjustment keystrokes
        + pointer_count_adjustment pointers))"

text \<open>
  The quantities as the specification describes them. The variance is the population
  variance. The pointer acceleration variance follows the method of the entropy
  estimator (as \<^verbatim>\<open>calculateEntropyScore\<close> has it), in seconds: for every consecutive
  triple of samples, two velocity vectors over time gaps floored to 1 ms, and the
  magnitude of their difference; every triple counts.
\<close>

definition population_variance :: "real list \<Rightarrow> real" where
  "population_variance xs =
     (\<Sum>x\<leftarrow>xs. (x - sum_list xs / real (length xs))\<^sup>2) / real (length xs)"


definition floored_seconds :: "MousePoint \<Rightarrow> MousePoint \<Rightarrow> real" where
  "floored_seconds p q = max (real_of_int (sint (Time q - Time p))) 1 / 1000"

definition floored_magnitude :: "MousePoint \<Rightarrow> MousePoint \<Rightarrow> MousePoint \<Rightarrow> real" where
  "floored_magnitude p q r =
     sqrt (((X r - X q) / floored_seconds q r - (X q - X p) / floored_seconds p q)\<^sup>2
         + ((Y r - Y q) / floored_seconds q r - (Y q - Y p) / floored_seconds p q)\<^sup>2)"

definition floored_magnitudes :: "MousePoint list \<Rightarrow> real list" where
  "floored_magnitudes path =
     map (\<lambda>i. floored_magnitude (path ! (i - 2)) (path ! (i - 1)) (path ! i)) [2..<length path]"

definition claimed_score :: "TelemetryData \<Rightarrow> real" where
  "claimed_score s =
     risk_table (EntropyScore s)
       (length (FlightTimes (KeystrokeDynamics s)))
       (population_variance (FlightTimes (KeystrokeDynamics s)))
       (length (DwellTimes (KeystrokeDynamics s)))
       (population_variance (DwellTimes (KeystrokeDynamics s)))
       (sint (SessionDuration s))
       (length (MousePath s))
       (population_variance (floored_magnitudes (MousePath s)))
       (length (Keys (KeystrokeDynamics s)))"

text \<open>
  The same table read with the values that the scorer computes.
\<close>

definition computed_score :: "TelemetryData \<Rightarrow> real" where
  "computed_score s =
     risk_table (EntropyScore s)
       (length (FlightTimes (KeystrokeDynamics s)))
       (calculateVariance (FlightTimes (KeystrokeDynamics s)))
       (length (DwellTimes (KeystrokeDynamics s)))
       (calculateVariance (DwellTimes (KeystrokeDynamics s)))
       (sint (SessionDuration s))
       (length (MousePath s))
       (calculateMouseAcceleration (MousePath s))
       (length (Keys (KeystrokeDynamics s)))"

text \<open>
  Which triples the scorer's pointer variance is taken over, by index: the triple ending
  at index \<open>i\<close> counts when both of its time gaps, in seconds, are non-zero, and its
  magnitude is computed as \<^verbatim>\<open>calculateMouseAcceleration\<close> computes it.
\<close>

definition seconds_between :: "MousePoint \<Rightarrow> MousePoint \<Rightarrow> real" where
  "seconds_between p q = real_of_int (sint (Time q - Time p)) / 1000"

definition triple_magnitude :: "MousePoint \<Rightarrow> MousePoint \<Rightarrow> MousePoint \<Rightarrow> real" where
  "triple_magnitude p q r =
     (let accelX = (X r - X q) / seconds_between q r - (X q - X p) / seconds_between p q;
          accelY = (Y r - Y q) / seconds_between q r - (Y q - Y p) / seconds_between p q
      in sqrt (accelX * accelX + accelY * accelY))"

definition nonzero_gap_magnitudes :: "MousePoint list \<Rightarrow> real list" where
  "nonzero_gap_magnitudes path =
     map (\<lambda>i. triple_magnitude (path ! (i - 2)) (path ! (i - 1)) (path ! i))
       (filter (\<lambda>i. seconds_between (path ! (i - 2)) (path ! (i - 1)) \<noteq> 0
                    \<and> seconds_between (path ! (i - 1)) (path ! i) \<noteq> 0)
          [2..<length path])"

subsection \<open>Physics classifier\<close>

definition first_gap :: "MovementPoint list \<Rightarrow> real" where
  "first_gap points = timestamp (points ! 1) - timestamp (points ! 0)"

definition first_gap_adjustment :: "real \<Rightarrow> real" where
  "first_gap_adjustment gap = (if gap = 0 then - 0.3 else if gap < 50 then - 0.2 else 0.1)"

definition velocity_adjustment :: "real list \<Rightarrow> real" where
  "velocity_adjustment finite_velocities =
     (if finite_velocities \<noteq> [] \<and> Max (set finite_velocities) > 500 then - 0.25 else 0.1)"

definition linearity_adjustment :: "real \<Rightarrow> real" where
  "linearity_adjustment linearity =
     (if linearity > 0.95 then - 0.3 else if linearity > 0.7 then - 0.1 else 0.2)"

definition acceleration_adjustment :: "real \<Rightarrow> real" where
  "acceleration_adjustment sigma =
     (if sigma > 0.05 then 0.2 else if sigma > 0.01 then 0.1 else - 0.15)"

definition direction_adjustment :: "nat \<Rightarrow> nat \<Rightarrow> real" where
  "direction_adjustment changes samples =
     (if real changes > 20 / 100 * real samples then 0.15 else 0)"


text \<open>
  The same with the fourth adjustment applied only when there is an acceleration value.
\<close>

definition confidence_table ::
    "real \<Rightarrow> real list \<Rightarrow> real \<Rightarrow> real list \<Rightarrow> real \<Rightarrow> nat \<Rightarrow> nat \<Rightarrow> real" where
  "confidence_table gap finite_velocities linearity accels sigma changes samples =
     max 0 (min 1
       (0.5
        + first_gap_adjustment gap
        + velocity_adjustment finite_velocities
        + linearity_adjustment linearity
        + (if accels = [] then 0 else acceleration_adjustment sigma)
        + direction_adjustment changes samples))"

text \<open>The table read with the values that the classifier computes.\<close>

definition computed_confidence :: "MovementPoint list \<Rightarrow> real" where
  "computed_confidence points =
     confidence_table (first_gap points) (velocities_loop points) (measureLinearity points)
       (calculateAccelerations (velocities_loop points))
       (accelStdDev (calculateAccelerations (velocities_loop points)))
       (directionChanges_loop points 0) (length points)"

text \<open>
  The linearity of \<open>x\<close> against time as the specification describes it: the straight
  line runs from the first to the last sample; the residuals are taken against it at
  each sample's time stamp; the value is \<open>1 - SSres / SStot\<close> clamped to the range from
  0 to 1, and 1 when all \<open>x\<close> are equal. (The trace is not empty, and its first and last
  time stamps differ.)
\<close>

definition time_linearity :: "MovementPoint list \<Rightarrow> real" where
  "time_linearity points =
     (let first = hd points; final = last points;
          meanX = sum_list (map px points) / real (length points);
          ssRes = (\<Sum>p\<leftarrow>points.
                     (px p - (px first + (timestamp p - timestamp first)
                                          / (timestamp final - timestamp first)
                                          * (px final - px first)))\<^sup>2);
          ssTot = (\<Sum>p\<leftarrow>points. (px p - meanX)\<^sup>2)
      in if list_all (\<lambda>p. px p = px first) points then 1
         else max 0 (min 1 (1 - ssRes / ssTot)))"


section \<open>Auxiliary definitions\<close>



section \<open>Concrete inputs\<close>

text \<open>
  Two snapshots that both have entropy 85, flight times of variance 5400, a session of
  8500 ms and 150 pointer samples. In the first the pointer never moves and the four
  dwell times are equal; in the second the pointer makes one jump and the dwell times
  vary.
\<close>

definition scenario_A_low :: TelemetryData where
  "scenario_A_low =
     \<lparr>KeystrokeDynamics =
        \<lparr>FlightTimes = [0, 90, 180], DwellTimes = [80, 80, 80, 80],
         Keys = [''a'', ''b'', ''c'', ''d'']\<rparr>,
      MousePath = replicate 150 \<lparr>X = 0, Y = 0, Time = 0\<rparr>,
      EntropyScore = 85, SessionDuration = 8500, Timestamp_t = 0\<rparr>"

definition scenario_A_high :: TelemetryData where
  "scenario_A_high =
     \<lparr>KeystrokeDynamics =
        \<lparr>FlightTimes = [0, 90, 180], DwellTimes = [60, 80, 100, 80],
         Keys = [''a'', ''b'', ''c'', ''d'']\<rparr>,
      MousePath =
        [\<lparr>X = 0, Y = 0, Time = 0\<rparr>, \<lparr>X = 0, Y = 0, Time = 1000\<rparr>,
         \<lparr>X = 0, Y = 0, Time = 2000\<rparr>, \<lparr>X = 20, Y = 0, Time = 3000\<rparr>,
         \<lparr>X = 20, Y = 0, Time = 3000\<rparr>]
        @ replicate 145 \<lparr>X = 20, Y = 0, Time = 3000\<rparr>,
      EntropyScore = 85, SessionDuration = 8500, Timestamp_t = 0\<rparr>"

definition demo_context :: request_context where
  "demo_context =
     \<lparr>nowUnixNano = ''1700000000000000000'', nowUnix = 1700000000,
      nowFormatted = ''2023-11-14 22:13:20'', clientIP = ''127.0.0.1''\<rparr>"

text \<open>
  Twenty samples of a point moving along \<open>y = 0\<close> at 0.02 px/ms, taken every 50 ms
  except the last one, which comes 2000 ms after the one before it.
\<close>

definition uneven_trace :: "MovementPoint list" where
  "uneven_trace =
     [
      \<lparr>timestamp = 0, px = 0, py = 0\<rparr>,
      \<lparr>timestamp = 50, px = 1, py = 0\<rparr>,
      \<lparr>timestamp = 100, px = 2, py = 0\<rparr>,
      \<lparr>timestamp = 150, px = 3, py = 0\<rparr>,
      \<lparr>timestamp = 200, px = 4, py = 0\<rparr>,
      \<lparr>timestamp = 250, px = 5, py = 0\<rparr>,
      \<lparr>timestamp = 300, px = 6, py = 0\<rparr>,
      \<lparr>timestamp = 350, px = 7, py = 0\<rparr>,
      \<lparr>timestamp = 400, px = 8, py = 0\<rparr>,
      \<lparr>timestamp = 450, px = 9, py = 0\<rparr>,
      \<lparr>timestamp = 500, px = 10, py = 0\<rparr>,
      \<lparr>timestamp = 550, px = 11, py = 0\<rparr>,
      \<lparr>timestamp = 600, px = 12, py = 0\<rparr>,
      \<lparr>timestamp = 650, px = 13, py = 0\<rparr>,
      \<lparr>timestamp = 700, px = 14, py = 0\<rparr>,
      \<lparr>timestamp = 750, px = 15, py = 0\<rparr>,
      \<lparr>timestamp = 800, px = 16, py = 0\<rparr>,
      \<lparr>timestamp = 850, px = 17, py = 0\<rparr>,
      \<lparr>timestamp = 900, px = 18, py = 0\<rparr>,
      \<lparr>timestamp = 2900, px = 58, py = 0\<rparr>]"

text \<open>
  Fifteen samples: the second comes 100 ms after the first, all later ones carry the
  second one's time stamp, while \<open>y\<close> alternates between 0 and 1.
\<close>

definition stalled_trace :: "MovementPoint list" where
  "stalled_trace =
     [
      \<lparr>timestamp = 0, px = 0, py = 0\<rparr>,
      \<lparr>timestamp = 100, px = 0, py = 1\<rparr>,
      \<lparr>timestamp = 100, px = 0, py = 0\<rparr>,
      \<lparr>timestamp = 100, px = 0, py = 1\<rparr>,
      \<lparr>timestamp = 100, px = 0, py = 0\<rparr>,
      \<lparr>timestamp = 100, px = 0, py = 1\<rparr>,
      \<lparr>timestamp = 100, px = 0, py = 0\<rparr>,
      \<lparr>timestamp = 100, px = 0, py = 1\<rparr>,
      \<lparr>timestamp = 100, px = 0, py = 0\<rparr>,
      \<lparr>timestamp = 100, px = 0, py = 1\<rparr>,
      \<lparr>timestamp = 100, px = 0, py = 0\<rparr>,
      \<lparr>timestamp = 100, px = 0, py = 1\<rparr>,
      \<lparr>timestamp = 100, px = 0, py = 0\<rparr>,
      \<lparr>timestamp = 100, px = 0, py = 1\<rparr>,
      \<lparr>timestamp = 100, px = 0, py = 0\<rparr>]"

definition challenge_gate :: "string \<Rightarrow> gate" where
  "challenge_gate code =
     \<lparr>username = ''alice'', password = ''secret'', otp = code, step = CHALLENGE,
      loading = False, error = None,
      riskResponse = Some \<lparr>TrustScore_r = 55, RequiresChallenge = True\<rparr>,
      telemetryRef = None, userIdRef = ''alice''\<rparr>"

definition login_gate :: gate where
  "login_gate =
     \<lparr>username = ''alice'', password = ''secret'', otp = [], step = LOGIN,
      loading = False, error = None, riskResponse = None,
      telemetryRef = None, userIdRef = []\<rparr>"

text \<open>
  A snapshot whose eleven pointer samples all carry the same millisecond, the pointer
  moving by one pixel between the third and the fourth; three keystrokes, no key timings,
  entropy 50 and a session of 5000 ms.
\<close>

definition same_ms_burst :: TelemetryData where
  "same_ms_burst =
     \<lparr>KeystrokeDynamics = \<lparr>FlightTimes = [], DwellTimes = [], Keys = [''a'', ''b'', ''c'']\<rparr>,
      MousePath =
        [
         \<lparr>X = 0, Y = 0, Time = 0\<rparr>,
         \<lparr>X = 0, Y = 0, Time = 0\<rparr>,
         \<lparr>X = 0, Y = 0, Time = 0\<rparr>,
         \<lparr>X = 1, Y = 0, Time = 0\<rparr>,
         \<lparr>X = 1, Y = 0, Time = 0\<rparr>,
         \<lparr>X = 1, Y = 0, Time = 0\<rparr>,
         \<lparr>X = 1, Y = 0, Time = 0\<rparr>,
         \<lparr>X = 1, Y = 0, Time = 0\<rparr>,
         \<lparr>X = 1, Y = 0, Time = 0\<rparr>,
         \<lparr>X = 1, Y = 0, Time = 0\<rparr>,
         \<lparr>X = 1, Y = 0, Time = 0\<rparr>],
      EntropyScore = 50, SessionDuration = 5000, Timestamp_t = 0\<rparr>"

section \<open>The audit log\<close>

lemma GetEvents_loop_rev:
  "length result = i + length es \<Longrightarrow>
   GetEvents_loop es i result = rev es @ drop (length es) result"
proof (induction es arbitrary: i result)
  case Nil
  then show ?case by simp
next
  case (Cons e es)
  let ?r = "result[length result - 1 - i := e]"
  have len: "length ?r = Suc i + length es"
    using Cons.prems by simp
  have idx: "length result - 1 - i = length es"
    using Cons.prems by simp
  have "GetEvents_loop (e # es) i result = rev es @ drop (length es) ?r"
    using Cons.IH [OF len] by simp
  also have "drop (length es) ?r = e # drop (Suc (length es)) result"
    using Cons.prems unfolding idx by (simp add: drop_update_cancel Cons_nth_drop_Suc [symmetric] upd_conv_take_nth_drop)
  finally show ?case by simp
qed

lemma GetEvents_rev: "GetEvents el = rev (events el)"
  by (simp add: GetEvents_def GetEvents_loop_rev)

lemma events_LogEvent:
  "events (LogEvent e el) = drop (length (events el) + 1 - maxSize el) (events el @ [e])"
  by (simp add: LogEvent_def Let_def)

lemma maxSize_LogEvent: "maxSize (LogEvent e el) = maxSize el"
  by (simp add: LogEvent_def Let_def)

lemma maxSize_record_all: "maxSize (record_all es el) = maxSize el"
  unfolding record_all_def
  by (induction es arbitrary: el) (simp_all add: maxSize_LogEvent)

lemma events_record_all:
  "length (events el) \<le> maxSize el \<Longrightarrow>
   events (record_all es el) =
     drop (length (events el) + length es - maxSize el) (events el @ es)"
proof (induction es arbitrary: el)
  case Nil
  then show ?case by (simp add: record_all_def)
next
  case (Cons e es)
  let ?el = "LogEvent e el"
  have ev: "events ?el = drop (length (events el) + 1 - maxSize el) (events el @ [e])"
    by (rule events_LogEvent)
  have bound: "length (events ?el) \<le> maxSize ?el"
    using Cons.prems by (simp add: ev maxSize_LogEvent)
  have "events (record_all (e # es) el) = events (record_all es ?el)"
    by (simp add: record_all_def)
  also have "\<dots> = drop (length (events ?el) + length es - maxSize el) (events ?el @ es)"
    using Cons.IH [OF bound] by (simp add: maxSize_LogEvent)
  also have "\<dots> = drop (length (events el) + length (e # es) - maxSize el) (events el @ e # es)"
  proof (cases "length (events el) + 1 \<le> maxSize el")
    case True
    then show ?thesis by (simp add: ev)
  next
    case False
    with Cons.prems have full: "length (events el) = maxSize el" by simp
    show ?thesis
    proof (cases "events el")
      case Nil
      with full show ?thesis by (simp add: ev)
    next
      case (Cons a as)
      with full show ?thesis by (simp add: ev)
    qed
  qed
  finally show ?case .
qed

text \<open>
  Claim C6. Starting from the empty log of capacity 50 that \<^verbatim>\<open>main\<close> creates, after any
  sequence \<open>es\<close> of \<^verbatim>\<open>LogEvent\<close> calls \<^verbatim>\<open>GetEvents\<close> returns the last 50 events of
  \<open>es\<close> (all of them when there are fewer), most recent first; the stored count is at
  most 50 after every call, and exactly 50 once more than 50 events were recorded; and
  directly after \<^verbatim>\<open>LogEvent e\<close> the first element of \<^verbatim>\<open>GetEvents\<close> is \<open>e\<close>.
\<close>

theorem audit_log_keeps_last_50:
  "GetEvents (record_all es (NewEventLog 50)) = rev (drop (length es - 50) es)
   \<and> length (events (record_all es (NewEventLog 50))) = min 50 (length es)
   \<and> length (GetEvents (record_all es (NewEventLog 50))) \<le> 50
   \<and> GetEvents (LogEvent e (record_all es (NewEventLog 50))) ! 0 = e"
proof -
  let ?el = "record_all es (NewEventLog 50)"
  have ev: "events ?el = drop (length es - 50) es"
    using events_record_all [of "NewEventLog 50" es] by (simp add: NewEventLog_def)
  have ms: "maxSize ?el = 50"
    by (simp add: maxSize_record_all NewEventLog_def)
  have "events (LogEvent e ?el) \<noteq> []"
    by (simp add: events_LogEvent ms ev)
  moreover have "events (LogEvent e ?el) = drop (length (events ?el) + 1 - 50) (events ?el) @ [e]"
    by (simp add: events_LogEvent ms ev)
  ultimately have "rev (events (LogEvent e ?el)) ! 0 = e"
    by simp
  then have first: "GetEvents (LogEvent e ?el) ! 0 = e"
    by (simp only: GetEvents_rev)
  have list: "GetEvents ?el = rev (drop (length es - 50) es)"
    by (simp only: GetEvents_rev ev)
  have count: "length (events ?el) = min 50 (length es)"
    unfolding ev by simp
  have bound: "length (GetEvents ?el) \<le> 50"
    unfolding list by simp
  from list count bound first show ?thesis
    by blast
qed

section \<open>The risk scorer\<close>

lemma nonzero_gap_magnitudes_short: "length path < 3 \<Longrightarrow> nonzero_gap_magnitudes path = []"
  by (simp add: nonzero_gap_magnitudes_def)

lemma nonzero_gap_magnitudes_Cons:
  "nonzero_gap_magnitudes (p # q # r # rest) =
     (if seconds_between p q \<noteq> 0 \<and> seconds_between q r \<noteq> 0
      then [triple_magnitude p q r] else [])
     @ nonzero_gap_magnitudes (q # r # rest)"
proof -
  let ?path = "p # q # r # rest"
  let ?tail = "q # r # rest"
  let ?ok = "\<lambda>path i. seconds_between (path ! (i - 2)) (path ! (i - 1)) \<noteq> 0
                    \<and> seconds_between (path ! (i - 1)) (path ! i) \<noteq> 0"
  let ?mag = "\<lambda>path i. triple_magnitude (path ! (i - 2)) (path ! (i - 1)) (path ! i)"
  have "[2..<length ?path] = 2 # [Suc 2..<Suc (length ?tail)]"
    by (subst upt_conv_Cons) simp_all
  also have "[Suc 2..<Suc (length ?tail)] = map Suc [2..<length ?tail]"
    by (simp only: map_Suc_upt)
  finally have upt: "[2..<length ?path] = 2 # map Suc [2..<length ?tail]" .
  have shift: "?path ! (Suc i - 2) = ?tail ! (i - 2) \<and> ?path ! (Suc i - 1) = ?tail ! (i - 1)
      \<and> ?path ! Suc i = ?tail ! i" if "2 \<le> i" for i
  proof -
    define j where "j = i - 2"
    have i: "i = Suc (Suc j)"
      using that by (simp add: j_def)
    show ?thesis
      unfolding i by simp
  qed
  have ok_eq: "?ok ?path (Suc i) = ?ok ?tail i" if "2 \<le> i" for i
  proof -
    from shift [OF that]
    have a: "?path ! (Suc i - 2) = ?tail ! (i - 2)"
      and b: "?path ! (Suc i - 1) = ?tail ! (i - 1)"
      and c: "?path ! Suc i = ?tail ! i"
      by blast+
    show ?thesis
      by (simp only: a b c)
  qed
  have mag_eq: "?mag ?path (Suc i) = ?mag ?tail i" if "2 \<le> i" for i
  proof -
    from shift [OF that]
    have a: "?path ! (Suc i - 2) = ?tail ! (i - 2)"
      and b: "?path ! (Suc i - 1) = ?tail ! (i - 1)"
      and c: "?path ! Suc i = ?tail ! i"
      by blast+
    show ?thesis
      by (simp only: a b c)
  qed
  have ok: "filter (?ok ?path) (map Suc [2..<length ?tail])
      = map Suc (filter (?ok ?tail) [2..<length ?tail])"
  proof -
    have "filter (?ok ?path \<circ> Suc) [2..<length ?tail] = filter (?ok ?tail) [2..<length ?tail]"
    proof (rule filter_cong [OF refl])
      fix i
      assume "i \<in> set [2..<length ?tail]"
      then have "2 \<le> i"
        by (simp only: set_upt atLeastLessThan_iff)
      then show "(?ok ?path \<circ> Suc) i = ?ok ?tail i"
        unfolding comp_def by (rule ok_eq)
    qed
    then show ?thesis
      by (simp only: filter_map)
  qed
  have mag: "map (?mag ?path) (map Suc (filter (?ok ?tail) [2..<length ?tail]))
      = map (?mag ?tail) (filter (?ok ?tail) [2..<length ?tail])"
  proof -
    have "map (?mag ?path \<circ> Suc) (filter (?ok ?tail) [2..<length ?tail])
        = map (?mag ?tail) (filter (?ok ?tail) [2..<length ?tail])"
    proof (rule map_cong [OF refl])
      fix i
      assume "i \<in> set (filter (?ok ?tail) [2..<length ?tail])"
      then have "2 \<le> i"
        by (simp only: set_filter mem_Collect_eq set_upt atLeastLessThan_iff)
      then show "(?mag ?path \<circ> Suc) i = ?mag ?tail i"
        unfolding comp_def by (rule mag_eq)
    qed
    then show ?thesis
      by (simp only: map_map)
  qed
  have head: "?ok ?path 2 = (seconds_between p q \<noteq> 0 \<and> seconds_between q r \<noteq> 0)"
    "?mag ?path 2 = triple_magnitude p q r"
    by (simp_all add: numeral_2_eq_2)
  have "nonzero_gap_magnitudes ?path =
      map (?mag ?path) (filter (?ok ?path) (2 # map Suc [2..<length ?tail]))"
    unfolding nonzero_gap_magnitudes_def upt ..
  also have "\<dots> = (if ?ok ?path 2 then [?mag ?path 2] else [])
      @ map (?mag ?path) (filter (?ok ?path) (map Suc [2..<length ?tail]))"
    by simp
  also have "\<dots> = (if seconds_between p q \<noteq> 0 \<and> seconds_between q r \<noteq> 0
      then [triple_magnitude p q r] else [])
      @ map (?mag ?tail) (filter (?ok ?tail) [2..<length ?tail])"
    unfolding ok mag head ..
  finally show ?thesis
    unfolding nonzero_gap_magnitudes_def [of ?tail] .
qed

lemma accelerations_loop_triples:
  "accelerations_loop path acc = acc @ nonzero_gap_magnitudes path"
proof (induction path acc rule: accelerations_loop.induct)
  case (1 point1 point2 point3 rest accelerations)
  show ?case
  proof (cases "seconds_between point1 point2 = 0 \<or> seconds_between point2 point3 = 0")
    case True
    then have skip: "real_of_int (sint (Time point2 - Time point1)) / 1000 = 0
        \<or> real_of_int (sint (Time point3 - Time point2)) / 1000 = 0"
      by (simp add: seconds_between_def)
    have "accelerations_loop (point2 # point3 # rest) accelerations
        = accelerations @ nonzero_gap_magnitudes (point2 # point3 # rest)"
      by (rule "1.IH"(1) [OF refl refl skip])
    with True skip show ?thesis
      by (simp add: nonzero_gap_magnitudes_Cons Let_def)
  next
    case False
    then have keep: "\<not> (real_of_int (sint (Time point2 - Time point1)) / 1000 = 0
        \<or> real_of_int (sint (Time point3 - Time point2)) / 1000 = 0)"
      by (simp add: seconds_between_def)
    have "accelerations_loop (point2 # point3 # rest) (accelerations @ [triple_magnitude point1 point2 point3])
        = (accelerations @ [triple_magnitude point1 point2 point3])
          @ nonzero_gap_magnitudes (point2 # point3 # rest)"
      using "1.IH"(2) [OF refl refl keep refl refl refl refl refl refl refl]
      by (simp add: triple_magnitude_def seconds_between_def Let_def)
    with False keep show ?thesis
      by (simp add: nonzero_gap_magnitudes_Cons triple_magnitude_def seconds_between_def Let_def)
  qed
qed (simp_all add: nonzero_gap_magnitudes_short)

lemma calculateMouseAcceleration_by_index:
  "calculateMouseAcceleration path =
     (if length path < 3 then 0 else calculateVariance (nonzero_gap_magnitudes path))"
  by (simp add: calculateMouseAcceleration_def accelerations_loop_triples)

lemma entropy_block_eq: "entropy_block t s = s + entropy_adjustment (EntropyScore t)"
  by (simp add: entropy_block_def entropy_adjustment_def)

lemma flight_block_eq:
  "flight_block t s = s + flight_adjustment (length (FlightTimes (KeystrokeDynamics t)))
        (calculateVariance (FlightTimes (KeystrokeDynamics t)))"
  by (simp add: flight_block_def flight_adjustment_def Let_def)

lemma dwell_block_eq:
  "dwell_block t s = s + dwell_adjustment (length (DwellTimes (KeystrokeDynamics t)))
        (calculateVariance (DwellTimes (KeystrokeDynamics t)))"
  by (simp add: dwell_block_def dwell_adjustment_def Let_def)

lemma session_block_eq:
  "session_block t s = s + session_adjustment (sint (SessionDuration t))"
  by (simp add: session_block_def session_adjustment_def)

lemma mouse_block_eq: "mouse_block t s = s + pointer_adjustment (length (MousePath t))
        (calculateMouseAcceleration (MousePath t))"
  by (simp add: mouse_block_def pointer_adjustment_def Let_def)

lemma keystroke_count_block_eq:
  "keystroke_count_block t s = s + keystroke_count_adjustment (length (Keys (KeystrokeDynamics t)))"
  by (simp add: keystroke_count_block_def keystroke_count_adjustment_def Let_def)

lemma mouse_count_block_eq:
  "mouse_count_block t s = s + pointer_count_adjustment (length (MousePath t))"
  by (simp add: mouse_count_block_def pointer_count_adjustment_def Let_def)

lemma clamp_block_eq: "clamp_block s = max 0 (min 100 s)"
  by (simp add: clamp_block_def)

lemmas block_eqs = entropy_block_eq flight_block_eq dwell_block_eq session_block_eq
  mouse_block_eq keystroke_count_block_eq mouse_count_block_eq clamp_block_eq

text \<open>
  Claim C1, amended. For every telemetry snapshot \<^verbatim>\<open>CalculateRisk\<close> returns the baseline
  50 plus the adjustments of the table, clamped to the range from 0 to 100, where the
  table is read with the variances that the scorer computes: entropy below 40, from 40 to
  70, above 70 gives -35, +5, +25; flight-time variance on at least 3 samples below 100
  gives -30 and above 1000 gives +15; dwell-time variance on at least 3 samples below 50
  gives -15; a session shorter than 2000 ms gives -20 and one longer than 300000 ms -10;
  pointer acceleration variance on more than 10 samples below 1 gives -25 and above 50
  gives +10; fewer than 3 keystrokes give -15; fewer than 5 pointer samples give -10 and
  more than 100 give +5. The pointer acceleration variance is taken over the triples
  whose two time gaps are both non-zero: a triple with a zero gap is skipped, and the
  variance is 0 for a path of fewer than 3 samples (and, as every variance of the
  scorer, for fewer than two values).
\<close>

theorem CalculateRisk_is_table:
  "CalculateRisk s = computed_score s
   \<and> calculateMouseAcceleration path =
       (if length path < 3 then 0 else calculateVariance (nonzero_gap_magnitudes path))
   \<and> calculateVariance [] = 0 \<and> calculateVariance [a] = 0"
  unfolding CalculateRisk_def computed_score_def risk_table_def block_eqs
  by (simp add: calculateMouseAcceleration_by_index [symmetric] calculateVariance_def)

lemma burst_computed_variance: "calculateMouseAcceleration (MousePath same_ms_burst) = 0"
  by (simp add: same_ms_burst_def calculateMouseAcceleration_def calculateVariance_def Let_def)

lemma burst_no_triple: "nonzero_gap_magnitudes (MousePath same_ms_burst) = []"
  by (simp add: same_ms_burst_def nonzero_gap_magnitudes_def seconds_between_def)

lemma burst_score: "CalculateRisk same_ms_burst = 30"
proof -
  have "pointer_adjustment (length (MousePath same_ms_burst))
        (calculateMouseAcceleration (MousePath same_ms_burst)) = - 25"
    unfolding burst_computed_variance by (simp add: pointer_adjustment_def same_ms_burst_def)
  moreover have "flight_adjustment (length (FlightTimes (KeystrokeDynamics same_ms_burst)))
        (calculateVariance (FlightTimes (KeystrokeDynamics same_ms_burst))) = 0"
    by (simp add: flight_adjustment_def same_ms_burst_def)
  moreover have "dwell_adjustment (length (DwellTimes (KeystrokeDynamics same_ms_burst)))
        (calculateVariance (DwellTimes (KeystrokeDynamics same_ms_burst))) = 0"
    by (simp add: dwell_adjustment_def same_ms_burst_def)
  moreover have "entropy_adjustment (EntropyScore same_ms_burst) = 5"
    by (simp add: entropy_adjustment_def same_ms_burst_def)
  moreover have "session_adjustment (sint (SessionDuration same_ms_burst)) = 0"
    by (simp add: session_adjustment_def same_ms_burst_def)
  moreover have "keystroke_count_adjustment (length (Keys (KeystrokeDynamics same_ms_burst))) = 0"
    by (simp add: keystroke_count_adjustment_def same_ms_burst_def)
  moreover have "pointer_count_adjustment (length (MousePath same_ms_burst)) = 0"
    by (simp add: pointer_count_adjustment_def same_ms_burst_def)
  ultimately show ?thesis
    unfolding CalculateRisk_def block_eqs by simp
qed

lemma burst_floored_magnitudes:
  "floored_magnitudes (MousePath same_ms_burst) = [0, 1000, 1000, 0, 0, 0, 0, 0, 0]"
proof -
  have upt: "[2..<11] = [2, 3, 4, 5, 6, 7, 8, 9, 10]"
    by (simp add: upt_rec)
  show ?thesis
    by (simp add: floored_magnitudes_def same_ms_burst_def upt floored_magnitude_def
        floored_seconds_def)
qed

lemma burst_floored_variance:
  "population_variance [0, 1000, 1000, 0, 0, 0, 0, 0, 0] = 14000000 / 81"
  by (simp add: population_variance_def power2_eq_square)

lemma burst_claimed_score: "claimed_score same_ms_burst = 65"
  unfolding claimed_score_def burst_floored_magnitudes burst_floored_variance
  by (simp add: same_ms_burst_def risk_table_def entropy_adjustment_def flight_adjustment_def
      dwell_adjustment_def session_adjustment_def pointer_adjustment_def
      keystroke_count_adjustment_def pointer_count_adjustment_def)

text \<open>
  Claim C1 as worded fails: \<open>same_ms_burst\<close> has eleven pointer samples within one
  millisecond. With the time gaps floored to 1 ms every one of its nine triples has a
  magnitude (two of 1000 px/s per second, seven of 0), their variance is far above 50, and
  the table gives 50 + 5 + 10 = 65. The scorer skips every triple, takes the variance to
  be 0 and returns 50 + 5 - 25 = 30.
\<close>

theorem same_ms_burst_counterexample:
  "length (MousePath same_ms_burst) = 11
   \<and> floored_magnitudes (MousePath same_ms_burst) = [0, 1000, 1000, 0, 0, 0, 0, 0, 0]
   \<and> population_variance (floored_magnitudes (MousePath same_ms_burst)) = 14000000 / 81
   \<and> claimed_score same_ms_burst = 65
   \<and> nonzero_gap_magnitudes (MousePath same_ms_burst) = []
   \<and> calculateMouseAcceleration (MousePath same_ms_burst) = 0
   \<and> CalculateRisk same_ms_burst = 30
   \<and> CalculateRisk same_ms_burst \<noteq> claimed_score same_ms_burst"
proof -
  have "length (MousePath same_ms_burst) = 11"
    by (simp add: same_ms_burst_def)
  moreover have "population_variance (floored_magnitudes (MousePath same_ms_burst)) = 14000000 / 81"
    unfolding burst_floored_magnitudes by (rule burst_floored_variance)
  moreover have "CalculateRisk same_ms_burst \<noteq> claimed_score same_ms_burst"
    unfolding burst_score burst_claimed_score by simp
  ultimately show ?thesis
    using burst_floored_magnitudes burst_claimed_score burst_no_triple burst_computed_variance
      burst_score
    by blast
qed

lemma verify_response:
  "fst (VerifyBehaviorHandler c (Some req) el) =
     StatusOK \<lparr>TrustScore_r = CalculateRisk (Telemetry req),
               RequiresChallenge = (CalculateRisk (Telemetry req) < 70)\<rparr>"
  by (simp add: VerifyBehaviorHandler_def CHALLENGE_THRESHOLD_def Let_def)

text \<open>
  Claim C2. For every bound verify request the handler answers 200 with the score of
  \<^verbatim>\<open>CalculateRisk\<close> and with \<^verbatim>\<open>requiresChallenge\<close> equal to "score below 70".
\<close>

theorem verify_threshold_consistent:
  "\<exists>resp. fst (VerifyBehaviorHandler c (Some req) el) = StatusOK resp
      \<and> TrustScore_r resp = CalculateRisk (Telemetry req)
      \<and> RequiresChallenge resp = (TrustScore_r resp < 70)"
  by (simp add: verify_response)

text \<open>
  Claim C10. Scoring is deterministic and stateless: two verify calls on the same
  telemetry snapshot return the same assessment (score and challenge flag), whatever the
  user id, the clock and the client address of each call, and although the first call
  has changed the event log that the second one runs on.
\<close>

theorem verify_deterministic:
  "fst (VerifyBehaviorHandler c1 (Some \<lparr>UserID_v = u1, Telemetry = s, Timestamp_v = t1\<rparr>) el)
   = fst (VerifyBehaviorHandler c2 (Some \<lparr>UserID_v = u2, Telemetry = s, Timestamp_v = t2\<rparr>)
        (snd (VerifyBehaviorHandler c1 (Some \<lparr>UserID_v = u1, Telemetry = s, Timestamp_v = t1\<rparr>) el)))"
  by (simp add: verify_response)

lemma accelerations_loop_replicate: "accelerations_loop (replicate n p) acc = acc"
proof (induction n)
  case 0
  then show ?case by simp
next
  case (Suc n)
  show ?case
  proof (cases n)
    case 0
    then show ?thesis by simp
  next
    case n: (Suc m)
    show ?thesis
    proof (cases m)
      case 0
      with n show ?thesis by simp
    next
      case (Suc k)
      with n Suc.IH show ?thesis by simp
    qed
  qed
qed

lemma accelerations_loop_then_still:
  "Time p = Time q \<Longrightarrow> accelerations_loop (p # replicate n q) acc = acc"
proof (cases n)
  case 0
  then show ?thesis by simp
next
  case n: (Suc m)
  assume same: "Time p = Time q"
  show ?thesis
  proof (cases m)
    case 0
    with n show ?thesis by simp
  next
    case (Suc k)
    have "accelerations_loop (p # q # q # replicate k q) acc
            = accelerations_loop (q # q # replicate k q) acc"
      using same by simp
    also have "\<dots> = accelerations_loop (replicate (Suc (Suc k)) q) acc"
      by simp
    also have "\<dots> = acc"
      by (rule accelerations_loop_replicate)
    finally show ?thesis using n Suc by simp
  qed
qed

lemma variance_flight_demo: "calculateVariance [0, 90, 180] = 5400"
  by (simp add: calculateVariance_def Let_def)

lemma scenario_A_low_path: "calculateMouseAcceleration (MousePath scenario_A_low) = 0"
  by (simp add: scenario_A_low_def calculateMouseAcceleration_def accelerations_loop_replicate
      calculateVariance_def)

lemma scenario_A_low_score: "CalculateRisk scenario_A_low = 55"
proof -
  have "pointer_adjustment (length (MousePath scenario_A_low))
        (calculateMouseAcceleration (MousePath scenario_A_low)) = - 25"
    unfolding scenario_A_low_path by (simp add: pointer_adjustment_def scenario_A_low_def)
  moreover have "flight_adjustment (length (FlightTimes (KeystrokeDynamics scenario_A_low)))
        (calculateVariance (FlightTimes (KeystrokeDynamics scenario_A_low))) = 15"
    by (simp add: flight_adjustment_def scenario_A_low_def variance_flight_demo)
  moreover have "dwell_adjustment (length (DwellTimes (KeystrokeDynamics scenario_A_low)))
        (calculateVariance (DwellTimes (KeystrokeDynamics scenario_A_low))) = - 15"
    by (simp add: dwell_adjustment_def scenario_A_low_def calculateVariance_def Let_def)
  moreover have "entropy_adjustment (EntropyScore scenario_A_low) = 25"
    by (simp add: entropy_adjustment_def scenario_A_low_def)
  moreover have "session_adjustment (sint (SessionDuration scenario_A_low)) = 0"
    by (simp add: session_adjustment_def scenario_A_low_def)
  moreover have "keystroke_count_adjustment (length (Keys (KeystrokeDynamics scenario_A_low))) = 0"
    by (simp add: keystroke_count_adjustment_def scenario_A_low_def)
  moreover have "pointer_count_adjustment (length (MousePath scenario_A_low)) = 5"
    by (simp add: pointer_count_adjustment_def scenario_A_low_def)
  ultimately show ?thesis
    unfolding CalculateRisk_def block_eqs by simp
qed

text \<open>
  Claim C9 as worded fails: the snapshot \<open>scenario_A_low\<close> has entropy 85, flight-time
  variance above 1000 on three samples, a session of 8500 ms and 150 pointer samples, and
  scores 55 with a challenge required.
\<close>

theorem scenario_A_counterexample:
  "EntropyScore scenario_A_low = 85
   \<and> 3 \<le> length (FlightTimes (KeystrokeDynamics scenario_A_low))
   \<and> calculateVariance (FlightTimes (KeystrokeDynamics scenario_A_low)) > 1000
   \<and> sint (SessionDuration scenario_A_low) = 8500
   \<and> length (MousePath scenario_A_low) = 150
   \<and> CalculateRisk scenario_A_low = 55
   \<and> fst (VerifyBehaviorHandler demo_context
            (Some \<lparr>UserID_v = ''alice'', Telemetry = scenario_A_low, Timestamp_v = 0\<rparr>)
            (NewEventLog 50))
       = StatusOK \<lparr>TrustScore_r = 55, RequiresChallenge = True\<rparr>"
proof -
  have "calculateVariance (FlightTimes (KeystrokeDynamics scenario_A_low)) > 1000"
    by (simp add: scenario_A_low_def variance_flight_demo)
  moreover have "sint (SessionDuration scenario_A_low) = 8500"
    by (simp add: scenario_A_low_def)
  moreover have "fst (VerifyBehaviorHandler demo_context
            (Some \<lparr>UserID_v = ''alice'', Telemetry = scenario_A_low, Timestamp_v = 0\<rparr>)
            (NewEventLog 50))
       = StatusOK \<lparr>TrustScore_r = 55, RequiresChallenge = True\<rparr>"
    by (simp add: verify_response scenario_A_low_score)
  moreover have "EntropyScore scenario_A_low = 85"
    "3 \<le> length (FlightTimes (KeystrokeDynamics scenario_A_low))"
    "length (MousePath scenario_A_low) = 150"
    by (simp_all add: scenario_A_low_def)
  ultimately show ?thesis
    using scenario_A_low_score by blast
qed

text \<open>
  Claim C9, amended. A snapshot with entropy 85, flight-time variance above 1000 on at
  least 3 samples, a session of 8500 ms and 150 pointer samples, whose pointer
  acceleration variance is above 50, which has at least 3 keystrokes, and whose dwell
  times are fewer than 3 or have variance at least 50, scores 100 (the sum 105, clamped)
  and requires no challenge.
\<close>

theorem scenario_A_clamps_to_100:
  assumes "EntropyScore s = 85"
    and "3 \<le> length (FlightTimes (KeystrokeDynamics s))"
    and "calculateVariance (FlightTimes (KeystrokeDynamics s)) > 1000"
    and "sint (SessionDuration s) = 8500"
    and "length (MousePath s) = 150"
    and "calculateMouseAcceleration (MousePath s) > 50"
    and "3 \<le> length (Keys (KeystrokeDynamics s))"
    and "length (DwellTimes (KeystrokeDynamics s)) < 3
         \<or> 50 \<le> calculateVariance (DwellTimes (KeystrokeDynamics s))"
  shows "CalculateRisk s = 100
     \<and> fst (VerifyBehaviorHandler c (Some \<lparr>UserID_v = u, Telemetry = s, Timestamp_v = t\<rparr>) el)
         = StatusOK \<lparr>TrustScore_r = 100, RequiresChallenge = False\<rparr>"
proof -
  have "entropy_adjustment (EntropyScore s) = 25"
    using assms(1) by (simp add: entropy_adjustment_def)
  moreover have "flight_adjustment (length (FlightTimes (KeystrokeDynamics s)))
        (calculateVariance (FlightTimes (KeystrokeDynamics s))) = 15"
    using assms(2,3) by (simp add: flight_adjustment_def)
  moreover have "dwell_adjustment (length (DwellTimes (KeystrokeDynamics s)))
        (calculateVariance (DwellTimes (KeystrokeDynamics s))) = 0"
    using assms(8) by (auto simp add: dwell_adjustment_def)
  moreover have "session_adjustment (sint (SessionDuration s)) = 0"
    using assms(4) by (simp add: session_adjustment_def)
  moreover have "pointer_adjustment (length (MousePath s))
        (calculateMouseAcceleration (MousePath s)) = 10"
    using assms(5,6) by (simp add: pointer_adjustment_def)
  moreover have "keystroke_count_adjustment (length (Keys (KeystrokeDynamics s))) = 0"
    using assms(7) by (simp add: keystroke_count_adjustment_def)
  moreover have "pointer_count_adjustment (length (MousePath s)) = 5"
    using assms(5) by (simp add: pointer_count_adjustment_def)
  ultimately have "CalculateRisk s = 100"
    unfolding CalculateRisk_def block_eqs by simp
  then show ?thesis
    by (simp add: verify_response)
qed

lemma scenario_A_high_path: "calculateMouseAcceleration (MousePath scenario_A_high) = 100"
proof -
  have "accelerations_loop (MousePath scenario_A_high) [] = [0, 20]"
    unfolding scenario_A_high_def
    by (simp add: Let_def accelerations_loop_then_still [of _ _ "Suc n" for n, simplified])
  then show ?thesis
    by (simp add: calculateMouseAcceleration_def scenario_A_high_def calculateVariance_def Let_def)
qed

text \<open>The snapshot \<open>scenario_A_high\<close> meets every condition of the amended claim C9.\<close>

theorem scenario_A_clamps_to_100_witness:
  "EntropyScore scenario_A_high = 85
   \<and> 3 \<le> length (FlightTimes (KeystrokeDynamics scenario_A_high))
   \<and> calculateVariance (FlightTimes (KeystrokeDynamics scenario_A_high)) > 1000
   \<and> sint (SessionDuration scenario_A_high) = 8500
   \<and> length (MousePath scenario_A_high) = 150
   \<and> calculateMouseAcceleration (MousePath scenario_A_high) > 50
   \<and> 3 \<le> length (Keys (KeystrokeDynamics scenario_A_high))
   \<and> 50 \<le> calculateVariance (DwellTimes (KeystrokeDynamics scenario_A_high))
   \<and> CalculateRisk scenario_A_high = 100
   \<and> fst (VerifyBehaviorHandler demo_context
            (Some \<lparr>UserID_v = ''alice'', Telemetry = scenario_A_high, Timestamp_v = 0\<rparr>)
            (NewEventLog 50))
       = StatusOK \<lparr>TrustScore_r = 100, RequiresChallenge = False\<rparr>"
proof -
  have h1: "EntropyScore scenario_A_high = 85"
    and h2: "3 \<le> length (FlightTimes (KeystrokeDynamics scenario_A_high))"
    and h5: "length (MousePath scenario_A_high) = 150"
    and h7: "3 \<le> length (Keys (KeystrokeDynamics scenario_A_high))"
    by (simp_all add: scenario_A_high_def)
  have h3: "calculateVariance (FlightTimes (KeystrokeDynamics scenario_A_high)) > 1000"
    by (simp add: scenario_A_high_def variance_flight_demo)
  have h4: "sint (SessionDuration scenario_A_high) = 8500"
    by (simp add: scenario_A_high_def)
  have h6: "calculateMouseAcceleration (MousePath scenario_A_high) > 50"
    by (simp add: scenario_A_high_path)
  have h8: "50 \<le> calculateVariance (DwellTimes (KeystrokeDynamics scenario_A_high))"
    by (simp add: scenario_A_high_def calculateVariance_def Let_def)
  from h1 h2 h3 h4 h5 h6 h7 h8
    scenario_A_clamps_to_100 [OF h1 h2 h3 h4 h5 h6 h7 disjI2 [OF h8],
      of demo_context "''alice''" 0 "NewEventLog 50"]
  show ?thesis by blast
qed

section \<open>The physics classifier\<close>

lemma foldl_add: "foldl (\<lambda>a v. a + f v) (s::real) xs = s + (\<Sum>x\<leftarrow>xs. f x)"
  by (induction xs arbitrary: s) simp_all

lemma accelStdDev_zeros: "accelStdDev (replicate m 0) = 0"
  using foldl_add [of "\<lambda>v. v" 0 "replicate m 0"]
  by (simp add: accelStdDev_def Let_def foldl_add sum_list_replicate)

lemma foldl_max_Max: "foldl max (v::real) rest = Max (set (v # rest))"
proof (induction rest arbitrary: v)
  case Nil
  then show ?case by simp
next
  case (Cons a rest)
  have "foldl max v (a # rest) = Max (set (max v a # rest))"
    using Cons.IH [of "max v a"] by simp
  also have "\<dots> = Max (set (v # a # rest))"
  proof (cases "rest = []")
    case True
    then show ?thesis by simp
  next
    case False
    then show ?thesis by (simp add: max.assoc)
  qed
  finally show ?case .
qed

lemma fst_check_instant_movement:
  "2 \<le> length points \<Longrightarrow>
   fst (check_instant_movement points st) = fst st + first_gap_adjustment (first_gap points)"
  by (cases st)
     (simp add: check_instant_movement_def first_gap_adjustment_def first_gap_def
        MIN_MOVEMENT_TIME_def Let_def)

lemma fst_check_velocity:
  "fst (check_velocity vels st) = fst st + velocity_adjustment vels"
proof (cases vels)
  case Nil
  then show ?thesis
    by (cases st) (simp add: check_velocity_def velocity_adjustment_def Math_max_def Let_def)
next
  case (Cons v rest)
  then show ?thesis
    using foldl_max_Max [of v rest]
    by (cases st)
       (simp add: check_velocity_def velocity_adjustment_def Math_max_def Let_def
          VELOCITY_THRESHOLD_def)
qed

lemma fst_check_linearity:
  "fst (check_linearity points st) = fst st + linearity_adjustment (measureLinearity points)"
  by (cases st)
     (simp add: check_linearity_def linearity_adjustment_def LINEARITY_THRESHOLD_def Let_def)

lemma fst_check_acceleration:
  "fst (check_acceleration accs st) =
     fst st + (if accs = [] then 0 else acceleration_adjustment (accelStdDev accs))"
  by (cases st) (simp add: check_acceleration_def acceleration_adjustment_def Let_def)

lemma fst_check_direction:
  "fst (check_direction points st) =
     fst st + direction_adjustment (directionChanges_loop points 0) (length points)"
  by (cases st) (simp add: check_direction_def direction_adjustment_def Let_def)

lemmas fst_checks = fst_check_velocity fst_check_linearity fst_check_acceleration
  fst_check_direction

lemma analyzePhysics_confidence:
  assumes "15 \<le> length points"
  shows "confidence (analyzePhysics points) = computed_confidence points"
proof -
  have two: "2 \<le> length points"
    using assms by simp
  show ?thesis
    using assms
    by (simp add: analyzePhysics_def MIN_SAMPLES_def Let_def case_prod_beta fst_checks
        fst_check_instant_movement [OF two] computed_confidence_def confidence_table_def)
qed

lemma clamp_above_threshold: "(max 0 (min 1 c) > (0.4::real)) = (c > 0.4)"
  by (simp add: max_def min_def)

lemma analyzePhysics_isHuman:
  "isHuman (analyzePhysics points) = (confidence (analyzePhysics points) > 0.4)"
proof (cases "length points < MIN_SAMPLES")
  case True
  then show ?thesis by (simp add: analyzePhysics_def)
next
  case False
  then show ?thesis
    using clamp_above_threshold
    by (simp only: analyzePhysics_def Let_def case_prod_beta if_False
        PhysicsAnalysis.simps)
qed












lemma calculateAccelerations_replicate:
  "calculateAccelerations (replicate m v) = replicate (m - 1) 0"
proof (induction m)
  case 0
  then show ?case by simp
next
  case (Suc m)
  then show ?case by (cases m) simp_all
qed






lemma analyzePhysics_lists:
  "15 \<le> length points \<Longrightarrow>
   velocities (analyzePhysics points) = velocities_loop points
   \<and> accelerations (analyzePhysics points) = calculateAccelerations (velocities_loop points)"
  by (simp add: analyzePhysics_def MIN_SAMPLES_def Let_def case_prod_beta)












lemma uneven_velocities: "velocities_loop uneven_trace = replicate 19 (1 / 50)"
  by (simp add: uneven_trace_def calculateVelocity_def distance_def Let_def numeral_eq_Suc)

lemma uneven_linearity: "measureLinearity uneven_trace = 47560 / 1083361"
  by (simp add: uneven_trace_def measureLinearity_def Let_def enumerate_eq_zip upt_rec)

lemma uneven_time_linearity: "time_linearity uneven_trace = 1"
  by (simp add: uneven_trace_def time_linearity_def Let_def)

lemma uneven_direction: "directionChanges_loop uneven_trace 0 = 0"
  by (simp add: uneven_trace_def Let_def)

lemma uneven_gap: "first_gap uneven_trace = 50"
  by (simp add: uneven_trace_def first_gap_def)

lemma uneven_length: "length uneven_trace = 20"
  by (simp add: uneven_trace_def)

lemma uneven_accelerations: "calculateAccelerations (replicate 19 (1 / 50)) = replicate 18 (0::real)"
  using calculateAccelerations_replicate [of 19 "1 / 50"] by simp

lemma uneven_confidence: "computed_confidence uneven_trace = 0.75"
  unfolding computed_confidence_def uneven_velocities uneven_accelerations uneven_gap
    uneven_linearity uneven_direction uneven_length accelStdDev_zeros
  by (simp add: confidence_table_def first_gap_adjustment_def velocity_adjustment_def
      linearity_adjustment_def acceleration_adjustment_def direction_adjustment_def)

text \<open>
  Claim C8 fails on the code. \<open>uneven_trace\<close> has 20 samples on the straight line
  \<open>y = 0\<close>, \<open>x = t / 50\<close>, traversed at the constant velocity 0.02 px/ms with non-zero
  time gaps: 19 finite velocities, all equal, hence 18 zero accelerations with standard
  deviation 0, and \<open>x\<close> is an exact linear function of the time stamp. Yet
  \<^verbatim>\<open>measureLinearity\<close>, which pairs each \<open>x\<close> with its array index instead of its time
  stamp, returns a value below 0.05 where the claim has a linearity above 0.95, so that
  the classifier adds 0.2 instead of subtracting 0.3: the confidence is above 0.4 (it is
  0.75) and \<^verbatim>\<open>isHuman\<close> is true, where the claim has a confidence of at most 0.4 and
  \<^verbatim>\<open>isHuman\<close> false.
\<close>

theorem uneven_line_classified_human:
  "length uneven_trace = 20
   \<and> map (\<lambda>p. px p - timestamp p / 50) uneven_trace = replicate 20 0
   \<and> map py uneven_trace = replicate 20 0
   \<and> velocities (analyzePhysics uneven_trace) = replicate 19 (1 / 50)
   \<and> accelerations (analyzePhysics uneven_trace) = replicate 18 0
   \<and> accelStdDev (accelerations (analyzePhysics uneven_trace)) = 0
   \<and> time_linearity uneven_trace = 1
   \<and> measureLinearity uneven_trace < 0.05
   \<and> \<not> measureLinearity uneven_trace > 0.95
   \<and> confidence (analyzePhysics uneven_trace) = 0.75
   \<and> \<not> confidence (analyzePhysics uneven_trace) \<le> 0.4
   \<and> isHuman (analyzePhysics uneven_trace)"
proof -
  have len: "15 \<le> length uneven_trace"
    by (simp add: uneven_length)
  have line: "map (\<lambda>p. px p - timestamp p / 50) uneven_trace = replicate 20 0"
    by (simp add: uneven_trace_def numeral_eq_Suc)
  have flat: "map py uneven_trace = replicate 20 0"
    by (simp add: uneven_trace_def numeral_eq_Suc)
  have conf: "confidence (analyzePhysics uneven_trace) = 0.75"
    using analyzePhysics_confidence [OF len] uneven_confidence by simp
  have human: "isHuman (analyzePhysics uneven_trace)"
    unfolding analyzePhysics_isHuman conf by simp
  have vels: "velocities (analyzePhysics uneven_trace) = replicate 19 (1 / 50)"
    using analyzePhysics_lists [OF len] uneven_velocities by simp
  have accs: "accelerations (analyzePhysics uneven_trace) = replicate 18 0"
    using analyzePhysics_lists [OF len] uneven_velocities uneven_accelerations by simp
  have sigma: "accelStdDev (accelerations (analyzePhysics uneven_trace)) = 0"
    unfolding accs by (rule accelStdDev_zeros)
  have low: "measureLinearity uneven_trace < 0.05"
    unfolding uneven_linearity by simp
  have lin: "\<not> measureLinearity uneven_trace > 0.95"
    unfolding uneven_linearity by simp
  have "\<not> confidence (analyzePhysics uneven_trace) \<le> 0.4"
    unfolding conf by simp
  with uneven_length line flat vels accs sigma uneven_time_linearity low lin conf human
  show ?thesis
    by blast
qed

text \<open>
  Claim C4. For every trace with fewer than 15 samples \<^verbatim>\<open>analyzePhysics\<close> returns
  \<^verbatim>\<open>isHuman\<close> false, confidence 0, the single insufficient-samples reason and empty
  velocity and acceleration lists; no check has added a reason or changed the confidence.
\<close>

theorem classifier_insufficient_samples:
  assumes "length points < 15"
  shows "analyzePhysics points =
     \<lparr>isHuman = False, confidence = 0,
      reasons = [InsufficientSamples (length points) 15],
      velocities = [], accelerations = []\<rparr>"
  using assms by (simp add: analyzePhysics_def MIN_SAMPLES_def)

text \<open>The first 14 samples of \<open>stalled_trace\<close> are such a trace.\<close>

theorem classifier_insufficient_samples_witness:
  "length (take 14 stalled_trace) < 15
   \<and> analyzePhysics (take 14 stalled_trace) =
     \<lparr>isHuman = False, confidence = 0,
      reasons = [InsufficientSamples 14 15],
      velocities = [], accelerations = []\<rparr>"
proof -
  have len: "length (take 14 stalled_trace) = 14"
    by (simp add: stalled_trace_def)
  then have short: "length (take 14 stalled_trace) < 15"
    by simp
  from classifier_insufficient_samples [OF short] short len show ?thesis
    by simp
qed

section \<open>The handlers and the login gate\<close>

text \<open>
  The client posts verify requests to a registered route, and challenge submissions to
  an address that \<^verbatim>\<open>main.go\<close> does not register.
\<close>

lemma route_verify: "route_of verifyBehavior_url = Some VerifyBehavior"
  by (simp add: route_of_def post_routes_def verifyBehavior_url_def client_baseURL_def
      server_origin_def)

lemma route_challenge: "route_of submitChallenge_url = None"
  by (simp add: route_of_def post_routes_def submitChallenge_url_def client_baseURL_def
      server_origin_def)

lemma CalculateRisk_ignores_timestamp:
  "CalculateRisk (data\<lparr>Timestamp_t := v\<rparr>) = CalculateRisk data"
  unfolding CalculateRisk_def block_eqs by simp

lemma verify_log:
  "snd (VerifyBehaviorHandler c (Some req) el) =
     LogEvent (verify_event c (UserID_v req) (Telemetry req)) el"
  by (simp add: VerifyBehaviorHandler_def verify_event_def CHALLENGE_THRESHOLD_def Let_def)

lemma deliver_verify_eq:
  "deliver_verify c userId data el =
     (Resolved \<lparr>TrustScore_r = CalculateRisk data, RequiresChallenge = (CalculateRisk data < 70)\<rparr>,
      LogEvent (verify_event c userId data) el)"
proof -
  let ?req = "\<lparr>UserID_v = userId, Telemetry = data\<lparr>Timestamp_t := 0\<rparr>, Timestamp_v = Timestamp_t data\<rparr>"
  have pair: "VerifyBehaviorHandler c (Some ?req) el =
      (fst (VerifyBehaviorHandler c (Some ?req) el), snd (VerifyBehaviorHandler c (Some ?req) el))"
    by simp
  show ?thesis
    unfolding deliver_verify_def route_verify
    by (subst pair) (simp add: verify_response verify_log CalculateRisk_ignores_timestamp verify_event_def)
qed

lemma challenge_log: "snd (SubmitChallengeHandler body el) = el"
  by (cases body) (simp_all add: SubmitChallengeHandler_def Let_def)

lemma challenge_status:
  "\<exists>r. fst (SubmitChallengeHandler (Some req) el) = StatusOK r
       \<and> (Status_c r = ''accepted'') = Success req"
  by (simp add: SubmitChallengeHandler_def Let_def)

lemma deliver_challenge_eq:
  "deliver_challenge now userId success el =
     (Rejected ''Request failed with status code 404'', el)"
  by (simp add: deliver_challenge_def route_challenge)

lemma handleChallengeSubmit_log:
  "snd (handleChallengeSubmit (deliver_challenge now) g el) = el"
  by (simp add: handleChallengeSubmit_def deliver_challenge_eq Let_def)

text \<open>
  Claim C5, amended. Every verify evaluation appends exactly one \<^verbatim>\<open>SecurityEvent\<close> to
  the log; the event carries the trust score computed by that evaluation and has the
  outcome \<^verbatim>\<open>success\<close> when the score is at least 70 (the gate moves from LOGIN to
  SUCCESS) and \<^verbatim>\<open>challenged\<close> when it is below 70 (the gate moves to CHALLENGE). The
  challenge handler appends nothing, whatever its request, so completing a challenge
  leaves the log as it was.
\<close>

theorem verify_logs_challenge_does_not:
  assumes "js_trim (username g) \<noteq> []" and "js_trim (password g) \<noteq> []"
  shows "snd (VerifyBehaviorHandler c (Some req) el)
           = LogEvent (verify_event c (UserID_v req) (Telemetry req)) el
     \<and> TrustScore (verify_event c userId data) = CalculateRisk data
     \<and> Status (verify_event c userId data)
           = (if CalculateRisk data < 70 then ''challenged'' else ''success'')
     \<and> snd (handleLoginSubmit (deliver_verify c) data g el)
           = LogEvent (verify_event c (username g) data) el
     \<and> step (fst (handleLoginSubmit (deliver_verify c) data g el))
           = (if CalculateRisk data < 70 then CHALLENGE else SUCCESS)
     \<and> snd (SubmitChallengeHandler body el) = el
     \<and> snd (handleChallengeSubmit (deliver_challenge now) g el) = el"
proof -
  have login: "handleLoginSubmit (deliver_verify c) data g el =
      (g\<lparr>error := None, telemetryRef := Some data, userIdRef := username g,
          riskResponse := Some \<lparr>TrustScore_r = CalculateRisk data,
                                 RequiresChallenge = (CalculateRisk data < 70)\<rparr>,
          step := (if CalculateRisk data < 70 then CHALLENGE else SUCCESS),
          loading := False\<rparr>,
       LogEvent (verify_event c (username g) data) el)"
    using assms by (simp add: handleLoginSubmit_def deliver_verify_eq Let_def)
  show ?thesis
    unfolding login handleChallengeSubmit_log verify_log challenge_log
    by (simp add: verify_event_def)
qed

lemma alice_trim: "js_trim ''alice'' \<noteq> []" "js_trim ''secret'' \<noteq> []"
  by (simp_all add: js_trim_def is_js_whitespace_def)

lemma scenario_A_high_score: "CalculateRisk scenario_A_high = 100"
proof -
  have "flight_adjustment (length (FlightTimes (KeystrokeDynamics scenario_A_high)))
        (calculateVariance (FlightTimes (KeystrokeDynamics scenario_A_high))) = 15"
    by (simp add: flight_adjustment_def scenario_A_high_def variance_flight_demo)
  moreover have "dwell_adjustment (length (DwellTimes (KeystrokeDynamics scenario_A_high)))
        (calculateVariance (DwellTimes (KeystrokeDynamics scenario_A_high))) = 0"
    by (simp add: dwell_adjustment_def scenario_A_high_def calculateVariance_def Let_def)
  moreover have "entropy_adjustment (EntropyScore scenario_A_high) = 25"
    by (simp add: entropy_adjustment_def scenario_A_high_def)
  moreover have "session_adjustment (sint (SessionDuration scenario_A_high)) = 0"
    by (simp add: session_adjustment_def scenario_A_high_def)
  moreover have "keystroke_count_adjustment (length (Keys (KeystrokeDynamics scenario_A_high))) = 0"
    by (simp add: keystroke_count_adjustment_def scenario_A_high_def)
  moreover have "pointer_count_adjustment (length (MousePath scenario_A_high)) = 5"
    by (simp add: pointer_count_adjustment_def scenario_A_high_def)
  moreover have "pointer_adjustment (length (MousePath scenario_A_high))
        (calculateMouseAcceleration (MousePath scenario_A_high)) = 10"
    unfolding scenario_A_high_path by (simp add: pointer_adjustment_def scenario_A_high_def)
  ultimately show ?thesis
    unfolding CalculateRisk_def block_eqs by simp
qed

text \<open>
  A login by \<open>alice\<close> on the empty log: with \<open>scenario_A_high\<close> the log holds one
  \<^verbatim>\<open>success\<close> event with score 100 and the gate is at SUCCESS; with \<open>scenario_A_low\<close> it
  holds one \<^verbatim>\<open>challenged\<close> event with score 55 and the gate is at CHALLENGE.
\<close>

theorem verify_logs_challenge_does_not_witness:
  "js_trim (username login_gate) \<noteq> [] \<and> js_trim (password login_gate) \<noteq> []
   \<and> events (snd (handleLoginSubmit (deliver_verify demo_context) scenario_A_high login_gate
                    (NewEventLog 50)))
       = [\<lparr>ID = ''alice-1700000000000000000'', Timestamp = 1700000000, UserID = ''alice'',
           IP = ''127.0.0.1'', TrustScore = 100, Status = ''success'',
           TimeStr = ''2023-11-14 22:13:20''\<rparr>]
   \<and> step (fst (handleLoginSubmit (deliver_verify demo_context) scenario_A_high login_gate
                  (NewEventLog 50))) = SUCCESS
   \<and> events (snd (handleLoginSubmit (deliver_verify demo_context) scenario_A_low login_gate
                    (NewEventLog 50)))
       = [\<lparr>ID = ''alice-1700000000000000000'', Timestamp = 1700000000, UserID = ''alice'',
           IP = ''127.0.0.1'', TrustScore = 55, Status = ''challenged'',
           TimeStr = ''2023-11-14 22:13:20''\<rparr>]
   \<and> step (fst (handleLoginSubmit (deliver_verify demo_context) scenario_A_low login_gate
                  (NewEventLog 50))) = CHALLENGE"
proof -
  have u: "js_trim (username login_gate) \<noteq> []" and p: "js_trim (password login_gate) \<noteq> []"
    by (simp_all add: login_gate_def alice_trim)
  have name: "username login_gate = ''alice''"
    by (simp add: login_gate_def)
  have ev: "events (LogEvent e (NewEventLog 50)) = [e]" for e
    by (simp add: LogEvent_def NewEventLog_def)
  note high = verify_logs_challenge_does_not [OF u p, of demo_context _ "NewEventLog 50" _ scenario_A_high]
  note low = verify_logs_challenge_does_not [OF u p, of demo_context _ "NewEventLog 50" _ scenario_A_low]
  have high_ev: "events (snd (handleLoginSubmit (deliver_verify demo_context) scenario_A_high login_gate
                    (NewEventLog 50)))
       = [verify_event demo_context ''alice'' scenario_A_high]"
    using high by (simp add: ev name)
  have low_ev: "events (snd (handleLoginSubmit (deliver_verify demo_context) scenario_A_low login_gate
                    (NewEventLog 50)))
       = [verify_event demo_context ''alice'' scenario_A_low]"
    using low by (simp add: ev name)
  have high_step: "step (fst (handleLoginSubmit (deliver_verify demo_context) scenario_A_high login_gate
                  (NewEventLog 50))) = SUCCESS"
    using high by (simp add: scenario_A_high_score)
  have low_step: "step (fst (handleLoginSubmit (deliver_verify demo_context) scenario_A_low login_gate
                  (NewEventLog 50))) = CHALLENGE"
    using low by (simp add: scenario_A_low_score)
  show ?thesis
    unfolding high_ev low_ev high_step low_step
    using u p
    by (simp add: verify_event_def demo_context_def scenario_A_high_score scenario_A_low_score)
qed

text \<open>
  Claim C5 as worded fails: after a verify that scored 55 the log holds one
  \<^verbatim>\<open>challenged\<close> event; the challenge handler then answers \<^verbatim>\<open>accepted\<close> (or
  \<^verbatim>\<open>rejected\<close>) and returns the very same log, so the completion of the challenge has
  emitted no event.
\<close>

theorem challenge_emits_no_event_counterexample:
  "events (snd (VerifyBehaviorHandler demo_context
                  (Some \<lparr>UserID_v = ''alice'', Telemetry = scenario_A_low, Timestamp_v = 0\<rparr>)
                  (NewEventLog 50)))
     = [verify_event demo_context ''alice'' scenario_A_low]
   \<and> Status (verify_event demo_context ''alice'' scenario_A_low) = ''challenged''
   \<and> SubmitChallengeHandler (Some \<lparr>UserID_c = ''alice'', Success = True, Timestamp_c = 0\<rparr>)
        (LogEvent (verify_event demo_context ''alice'' scenario_A_low) (NewEventLog 50))
      = (StatusOK \<lparr>Status_c = ''accepted'', Message = ''Challenge verified successfully''\<rparr>,
         LogEvent (verify_event demo_context ''alice'' scenario_A_low) (NewEventLog 50))
   \<and> SubmitChallengeHandler (Some \<lparr>UserID_c = ''alice'', Success = False, Timestamp_c = 0\<rparr>)
        (LogEvent (verify_event demo_context ''alice'' scenario_A_low) (NewEventLog 50))
      = (StatusOK \<lparr>Status_c = ''rejected'', Message = ''Challenge verification failed''\<rparr>,
         LogEvent (verify_event demo_context ''alice'' scenario_A_low) (NewEventLog 50))
   \<and> length (events (snd (SubmitChallengeHandler
                 (Some \<lparr>UserID_c = ''alice'', Success = True, Timestamp_c = 0\<rparr>)
                 (LogEvent (verify_event demo_context ''alice'' scenario_A_low) (NewEventLog 50)))))
      \<noteq> length (events (LogEvent (verify_event demo_context ''alice'' scenario_A_low)
                          (NewEventLog 50))) + 1"
proof -
  have ev: "events (LogEvent e (NewEventLog 50)) = [e]" for e
    by (simp add: LogEvent_def NewEventLog_def)
  have st: "Status (verify_event demo_context ''alice'' scenario_A_low) = ''challenged''"
    by (simp add: verify_event_def scenario_A_low_score)
  show ?thesis
    unfolding verify_log challenge_log ev st
    by (simp add: SubmitChallengeHandler_def Let_def)
qed

lemma code_trim: "js_trim ''0000'' \<noteq> []"
  by (simp add: js_trim_def is_js_whitespace_def)

text \<open>
  Claim C7 fails on the code. The challenge handler does answer \<^verbatim>\<open>accepted\<close> exactly
  when the \<^verbatim>\<open>success\<close> field of the bound request is true, and the gate does call
  \<^verbatim>\<open>submitChallenge\<close> with the stored user id and \<^verbatim>\<open>success = true\<close> for an OTP such
  as \<open>0000\<close>. But \<^verbatim>\<open>submitChallenge\<close> posts to \<^verbatim>\<open>/api/v1/challenge/submit\<close>, while the
  server registers the handler at \<^verbatim>\<open>/api/v1/challenge\<close>: the request never reaches the
  handler, the client gets 404, and the gate moves to ERROR, not to SUCCESS, whatever
  the OTP is. (An OTP that is blank or shorter than 4 characters is not submitted at
  all, and the gate stays where it is.)
\<close>

theorem challenge_submission_not_routed:
  "(\<exists>r. fst (SubmitChallengeHandler (Some req) el) = StatusOK r
         \<and> (Status_c r = ''accepted'') = Success req)
   \<and> submitChallenge_url = ''http://localhost:3000/api/v1/challenge/submit''
   \<and> map fst post_routes = [''/api/v1/verify'', ''/api/v1/challenge'']
   \<and> route_of submitChallenge_url = None
   \<and> deliver_challenge now userId success el
       = (Rejected ''Request failed with status code 404'', el)
   \<and> step (fst (handleChallengeSubmit (deliver_challenge now) g el))
       = (if js_trim (otp g) = [] \<or> length (otp g) < 4 then step g else ERROR)
   \<and> 4 \<le> length (otp (challenge_gate ''0000''))
   \<and> snd (handleChallengeSubmit (recording_client (Rejected ''Network Error''))
            (challenge_gate ''0000'') []) = [(''alice'', True)]
   \<and> fst (SubmitChallengeHandler
             (Some \<lparr>UserID_c = ''alice'', Success = True, Timestamp_c = 0\<rparr>) (NewEventLog 50))
       = StatusOK \<lparr>Status_c = ''accepted'', Message = ''Challenge verified successfully''\<rparr>
   \<and> step (fst (handleChallengeSubmit (deliver_challenge 0) (challenge_gate ''0000'')
                  (NewEventLog 50))) = ERROR
   \<and> error (fst (handleChallengeSubmit (deliver_challenge 0) (challenge_gate ''0000'')
                   (NewEventLog 50))) = Some ''Request failed with status code 404''
   \<and> step (fst (handleChallengeSubmit (deliver_challenge 0) (challenge_gate ''0000'')
                  (NewEventLog 50))) \<noteq> SUCCESS"
proof -
  have url: "submitChallenge_url = ''http://localhost:3000/api/v1/challenge/submit''"
    by (simp add: submitChallenge_url_def client_baseURL_def)
  have routes: "map fst post_routes = [''/api/v1/verify'', ''/api/v1/challenge'']"
    by (simp add: post_routes_def)
  have gate_step: "step (fst (handleChallengeSubmit (deliver_challenge now) g el))
       = (if js_trim (otp g) = [] \<or> length (otp g) < 4 then step g else ERROR)"
    by (simp add: handleChallengeSubmit_def deliver_challenge_eq Let_def)
  have len: "4 \<le> length (otp (challenge_gate ''0000''))"
    by (simp add: challenge_gate_def)
  have sent: "snd (handleChallengeSubmit (recording_client (Rejected ''Network Error''))
            (challenge_gate ''0000'') []) = [(''alice'', True)]"
    by (simp add: handleChallengeSubmit_def recording_client_def challenge_gate_def code_trim
        Let_def)
  have handler: "fst (SubmitChallengeHandler
             (Some \<lparr>UserID_c = ''alice'', Success = True, Timestamp_c = 0\<rparr>) (NewEventLog 50))
       = StatusOK \<lparr>Status_c = ''accepted'', Message = ''Challenge verified successfully''\<rparr>"
    by (simp add: SubmitChallengeHandler_def Let_def)
  have gate: "handleChallengeSubmit (deliver_challenge 0) (challenge_gate ''0000'') (NewEventLog 50)
      = ((challenge_gate ''0000'')\<lparr>error := Some ''Request failed with status code 404'',
            step := ERROR, loading := False\<rparr>, NewEventLog 50)"
    by (simp add: handleChallengeSubmit_def deliver_challenge_eq challenge_gate_def code_trim
        Let_def)
  have ended: "step (fst (handleChallengeSubmit (deliver_challenge 0) (challenge_gate ''0000'')
                  (NewEventLog 50))) = ERROR"
    unfolding gate by simp
  have message: "error (fst (handleChallengeSubmit (deliver_challenge 0) (challenge_gate ''0000'')
                   (NewEventLog 50))) = Some ''Request failed with status code 404''"
    unfolding gate by simp
  have "step (fst (handleChallengeSubmit (deliver_challenge 0) (challenge_gate ''0000'')
                  (NewEventLog 50))) \<noteq> SUCCESS"
    unfolding ended by simp
  with challenge_status [of req el] url routes route_challenge
    deliver_challenge_eq [of now userId success el] gate_step len sent handler ended message
  show ?thesis
    by blast
qed

end
